theory Spec2Isabelle
  imports Complex_Main
begin

section \<open>Numbers, vectors and pointers\<close>

text \<open>
  The sources are \<^verbatim>\<open>voxelize.h\<close>, \<^verbatim>\<open>voxelize.c\<close> (uniform domain division, UDD) and
  \<^verbatim>\<open>raytrace.c\<close>.  The embedding fixes the following reading of the C data.

  \<^item> A \<^verbatim>\<open>float\<close> is a \<^typ>\<open>real\<close>: rounding, infinities and NaN are left out.  Every
    concrete input evaluated below is chosen with margins that rounding cannot cross.  The
    one conversion whose rounding changes an integer result, that of the number of voxels
    to \<^verbatim>\<open>float\<close> in \<^verbatim>\<open>rtUddCreate\<close>, is modelled with its rounding.
  \<^item> An \<^verbatim>\<open>int32_t\<close> is an \<^typ>\<open>int\<close>.  Signed overflow is undefined in C, so the model is
    exact on every execution that has a defined meaning; the range of the linear voxel
    index is part of the statement proved about it.
  \<^item> A \<^verbatim>\<open>float[3]\<close> (or the four-component vertex, whose last component is never read
    here) is a \<^verbatim>\<open>vec3\<close>; the loops over the three axes are written out.
  \<^item> A pointer \<^verbatim>\<open>RT_Triangle*\<close> is \<^verbatim>\<open>None\<close> for \<^verbatim>\<open>NULL\<close> and \<^verbatim>\<open>Some m\<close> for
    \<^verbatim>\<open>scene->t + m\<close>; pointers are compared by identity, as the code does.
  \<^item> An access outside an array and the use of a null pointer are faults, returned as
    values.
\<close>

datatype vec3 = Vec3 (c0: real) (c1: real) (c2: real)

datatype ivec3 = IVec3 (n0: int) (n1: int) (n2: int)

type_synonym tptr = "nat option"

datatype fault = OutOfBounds | NullDeref

text \<open>The conversion of a \<^verbatim>\<open>float\<close> to \<^verbatim>\<open>int32_t\<close> by assignment truncates toward zero.\<close>

definition to_int32 :: "real \<Rightarrow> int" where
  "to_int32 x = (if 0 \<le> x then \<lfloor>x\<rfloor> else \<lceil>x\<rceil>)"

text \<open>
  The conversion of an \<^verbatim>\<open>int32_t\<close> to \<^verbatim>\<open>float\<close>: the nearest value with a significand of
  24 bits, ties to the even significand.  \<open>float_ulp a\<close> is the spacing of such values at
  the magnitude \<open>a\<close> of an \<^verbatim>\<open>int32_t\<close>.
\<close>

definition float_ulp :: "int \<Rightarrow> int" where
  "float_ulp a =
    (if a < 2 ^ 24 then 1 else if a < 2 ^ 25 then 2 else if a < 2 ^ 26 then 4
     else if a < 2 ^ 27 then 8 else if a < 2 ^ 28 then 16 else if a < 2 ^ 29 then 32
     else if a < 2 ^ 30 then 64 else if a < 2 ^ 31 then 128 else 256)"

definition round_to_even :: "int \<Rightarrow> int \<Rightarrow> int" where
  "round_to_even a u =
    (let q = a div u; r = a mod u
     in if 2 * r < u then q * u
        else if u < 2 * r then (q + 1) * u
        else if even q then q * u else (q + 1) * u)"

definition float_of_int32 :: "int \<Rightarrow> real" where
  "float_of_int32 n = real_of_int (sgn n * round_to_even \<bar>n\<bar> (float_ulp \<bar>n\<bar>))"

definition FLT_MAX :: real where
  "FLT_MAX = 340282346638528859811704183484516925440"

text \<open>
  Modelled from the spec: \<^verbatim>\<open>vectormath.h\<close> and \<^verbatim>\<open>common.h\<close> are not among the
  sources.  \<^verbatim>\<open>rtVectorDotp\<close> is the dot product, \<^verbatim>\<open>rtVectorRaypoint\<close> the ray-point
  evaluator \<open>o + t\<cdot>r\<close>, \<^verbatim>\<open>rtAbs\<close> the absolute value, \<^verbatim>\<open>MIN\<close> and \<^verbatim>\<open>MAX\<close> the
  three-argument minimum and maximum.
\<close>

definition rtVectorDotp :: "vec3 \<Rightarrow> vec3 \<Rightarrow> real" where
  "rtVectorDotp a b = c0 a * c0 b + c1 a * c1 b + c2 a * c2 b"

definition rtVectorRaypoint :: "vec3 \<Rightarrow> vec3 \<Rightarrow> real \<Rightarrow> vec3" where
  "rtVectorRaypoint ro r d = Vec3 (c0 ro + d * c0 r) (c1 ro + d * c1 r) (c2 ro + d * c2 r)"

definition rtAbs :: "real \<Rightarrow> real" where
  "rtAbs x = \<bar>x\<bar>"

definition MIN3 :: "'a::linorder \<Rightarrow> 'a \<Rightarrow> 'a \<Rightarrow> 'a" where
  "MIN3 a b c = min a (min b c)"

definition MAX3 :: "'a::linorder \<Rightarrow> 'a \<Rightarrow> 'a \<Rightarrow> 'a" where
  "MAX3 a b c = max a (max b c)"

section \<open>Data model\<close>

text \<open>
  Modelled from the spec: the declarations of \<^verbatim>\<open>RT_Triangle\<close> and \<^verbatim>\<open>RT_Scene\<close>
  (\<^verbatim>\<open>types.h\<close>) are not among the sources.  The records hold the fields that
  \<^verbatim>\<open>voxelize.c\<close> reads: the vertices \<^verbatim>\<open>i\<close>, \<^verbatim>\<open>j\<close>, \<^verbatim>\<open>k\<close>, the plane \<^verbatim>\<open>n\<close>, \<^verbatim>\<open>d\<close> of a
  triangle; the bounds \<^verbatim>\<open>dmin\<close>, \<^verbatim>\<open>dmax\<close> and the triangle array \<^verbatim>\<open>t\<close> of a scene, whose
  length is \<^verbatim>\<open>nt\<close>.  The function pointer \<^verbatim>\<open>isint\<close> of a triangle is a parameter of the
  traverser.
\<close>

record RT_Triangle =
  tri_i :: vec3
  tri_j :: vec3
  tri_k :: vec3
  tri_n :: vec3
  tri_d :: real

record RT_Scene =
  scn_dmin :: vec3
  scn_dmax :: vec3
  scn_t :: "RT_Triangle list"

definition scn_nt :: "RT_Scene \<Rightarrow> int" where
  "scn_nt scene = int (length (scn_t scene))"

text \<open>
  \<^verbatim>\<open>RT_Voxel\<close>: \<^verbatim>\<open>nt\<close> triangles stored, \<^verbatim>\<open>p\<close> free slots left, and the array \<^verbatim>\<open>t\<close>, which
  is \<^verbatim>\<open>NULL\<close> (\<^verbatim>\<open>None\<close>) until the first insertion.
\<close>

record RT_Voxel =
  vox_nt :: int
  vox_p :: int
  vox_t :: "tptr list option"

record RT_Udd =
  udd_s :: vec3
  udd_nv :: ivec3
  udd_v :: "RT_Voxel list"

section \<open>Inline functions of the header\<close>

text \<open>The result is the returned flag followed by the values left in \<^verbatim>\<open>*i\<close>, \<^verbatim>\<open>*j\<close>, \<^verbatim>\<open>*k\<close>.\<close>

definition rtVertexGetVoxel :: "RT_Scene \<Rightarrow> RT_Udd \<Rightarrow> vec3 \<Rightarrow> int \<times> int \<times> int \<times> int" where
  "rtVertexGetVoxel scene udd v =
    (let i = to_int32 ((c0 v - c0 (scn_dmin scene)) / c0 (udd_s udd));
         j = to_int32 ((c1 v - c1 (scn_dmin scene)) / c1 (udd_s udd));
         k = to_int32 ((c2 v - c2 (scn_dmin scene)) / c2 (udd_s udd))
     in if i < 0 \<or> i \<ge> n0 (udd_nv udd) then (0, i, j, k)
        else if j < 0 \<or> j \<ge> n1 (udd_nv udd) then (0, i, j, k)
        else if k < 0 \<or> k \<ge> n2 (udd_nv udd) then (0, i, j, k)
        else (1, i, j, k))"

definition rtVoxelArrayOffset :: "RT_Udd \<Rightarrow> int \<Rightarrow> int \<Rightarrow> int \<Rightarrow> int" where
  "rtVoxelArrayOffset udd i j k = (i * n1 (udd_nv udd) + j) * n2 (udd_nv udd) + k"

section \<open>Per-voxel triangle lists\<close>

text \<open>
  The heap is the list of the outcomes of the \<^verbatim>\<open>malloc\<close> calls still to come; an
  exhausted list is an exhausted memory.
\<close>

type_synonym heap = "bool list"

fun malloc_ok :: "heap \<Rightarrow> bool \<times> heap" where
  "malloc_ok [] = (False, [])"
| "malloc_ok (b # h) = (b, h)"

text \<open>The two closing statements \<^verbatim>\<open>v->t[v->nt++] = t; v->p--;\<close>.\<close>

definition store_triangle :: "RT_Voxel \<Rightarrow> tptr \<Rightarrow> fault + RT_Voxel" where
  "store_triangle v t =
    (case vox_t v of
       None \<Rightarrow> Inl NullDeref
     | Some arr \<Rightarrow>
         if 0 \<le> vox_nt v \<and> nat (vox_nt v) < length arr
         then Inr (v\<lparr>vox_nt := vox_nt v + 1, vox_p := vox_p v - 1,
                     vox_t := Some (arr[nat (vox_nt v) := t])\<rparr>)
         else Inl OutOfBounds)"

text \<open>
  The result is the returned flag, the voxel afterwards and the heap afterwards.  A fresh
  array is zeroed by \<^verbatim>\<open>memset\<close>; the reallocation copies the first \<^verbatim>\<open>nt\<close> pointers.
\<close>

definition rtVoxelAddTriangle ::
    "heap \<Rightarrow> RT_Voxel \<Rightarrow> tptr \<Rightarrow> int \<Rightarrow> fault + (int \<times> RT_Voxel \<times> heap)" where
  "rtVoxelAddTriangle h v t bufsize =
    (case vox_t v of
       None \<Rightarrow>
         (case malloc_ok h of
            (False, h') \<Rightarrow> Inr (0, v, h')
          | (True, h') \<Rightarrow>
              (case store_triangle
                      (v\<lparr>vox_p := bufsize, vox_t := Some (replicate (nat bufsize) None)\<rparr>) t of
                 Inl e \<Rightarrow> Inl e
               | Inr v' \<Rightarrow> Inr (1, v', h')))
     | Some arr \<Rightarrow>
         if vox_p v = 0 then
           (case malloc_ok h of
              (False, h') \<Rightarrow> Inr (0, v, h')
            | (True, h') \<Rightarrow>
                if vox_nt v < 0 \<or> nat (vox_nt v) > length arr then Inl OutOfBounds
                else
                  (case store_triangle
                          (v\<lparr>vox_p := bufsize,
                             vox_t := Some (take (nat (vox_nt v)) arr
                                            @ replicate (nat bufsize) None)\<rparr>) t of
                     Inl e \<Rightarrow> Inl e
                   | Inr v' \<Rightarrow> Inr (1, v', h')))
         else
           (case store_triangle v t of
              Inl e \<Rightarrow> Inl e
            | Inr v' \<Rightarrow> Inr (1, v', h)))"

text \<open>The pointers a voxel holds, in insertion order.\<close>

definition stored :: "RT_Voxel \<Rightarrow> tptr list" where
  "stored v = (case vox_t v of None \<Rightarrow> [] | Some arr \<Rightarrow> take (nat (vox_nt v)) arr)"

text \<open>
  The state of a voxel between calls: zeroed by \<^verbatim>\<open>memset\<close>, or with an array of
  \<^verbatim>\<open>nt + p\<close> slots.
\<close>

definition voxel_wf :: "RT_Voxel \<Rightarrow> bool" where
  "voxel_wf v =
    (0 \<le> vox_nt v \<and> 0 \<le> vox_p v \<and>
     (case vox_t v of
        None \<Rightarrow> vox_nt v = 0
      | Some arr \<Rightarrow> int (length arr) = vox_nt v + vox_p v))"

definition zero_voxel :: RT_Voxel where
  "zero_voxel = \<lparr>vox_nt = 0, vox_p = 0, vox_t = None\<rparr>"

definition needs_alloc :: "RT_Voxel \<Rightarrow> bool" where
  "needs_alloc v = (vox_t v = None \<or> vox_p v = 0)"

section \<open>Stepping of the traverser\<close>

text \<open>
  The loop variables of \<^verbatim>\<open>rtUddTraverse\<close> and the values computed before the loop.
\<close>

record dda_state =
  cur_i :: int
  cur_j :: int
  cur_k :: int
  cur_tx :: real
  cur_ty :: real
  cur_tz :: real

record dda_setup =
  dda_dtx :: real
  dda_dty :: real
  dda_dtz :: real
  dda_di :: int
  dda_dj :: int
  dda_dk :: int

text \<open>The block \<^verbatim>\<open>// proceed to next voxel\<close>.\<close>

definition proceed :: "dda_setup \<Rightarrow> dda_state \<Rightarrow> dda_state" where
  "proceed c s =
    (let tx_n = cur_tx s + dda_dtx c;
         ty_n = cur_ty s + dda_dty c;
         tz_n = cur_tz s + dda_dtz c
     in if tx_n < ty_n then
          (if tx_n < tz_n then s\<lparr>cur_i := cur_i s + dda_di c, cur_tx := tx_n\<rparr>
           else s\<lparr>cur_k := cur_k s + dda_dk c, cur_tz := tz_n\<rparr>)
        else
          (if ty_n < tz_n then s\<lparr>cur_j := cur_j s + dda_dj c, cur_ty := ty_n\<rparr>
           else s\<lparr>cur_k := cur_k s + dda_dk c, cur_tz := tz_n\<rparr>))"

text \<open>
  The values computed before the loop for one axis with the planes \<open>x1\<close>, \<open>x2\<close> of the
  entry voxel: the pair \<open>(dt, t)\<close>.
\<close>

definition axis_setup :: "real \<Rightarrow> real \<Rightarrow> real \<Rightarrow> real \<Rightarrow> real \<times> real" where
  "axis_setup x1 x2 oa ra =
    (if ra = 0 then (FLT_MAX, 0)
     else let dt1 = (x1 - oa) / ra; dt2 = (x2 - oa) / ra
          in (rtAbs (dt2 - dt1), if dt1 < dt2 then dt1 else dt2))"

definition step_dir :: "real \<Rightarrow> int" where
  "step_dir ra = (if ra > 0 then 1 else - 1)"

section \<open>Grid construction\<close>

text \<open>
  The result is the grid (\<^verbatim>\<open>None\<close> for \<^verbatim>\<open>NULL\<close>), the scene with its bounds as the call
  leaves them, and the heap.  The scene is inflated before the second allocation, so it
  stays inflated when that allocation fails.  \<^verbatim>\<open>pow\<close> is \<open>powr\<close>, which agrees with it
  on the bases that are not negative; \<^verbatim>\<open>ceil\<close> returns a \<^verbatim>\<open>float\<close> that the assignment
  to \<^verbatim>\<open>nv[k]\<close> converts.  The number of voxels \<^verbatim>\<open>nv[0]*nv[1]*nv[2]\<close> is stored in the
  \<^verbatim>\<open>float\<close> variable \<^verbatim>\<open>tmp\<close>, and \<^verbatim>\<open>malloc\<close> and \<^verbatim>\<open>memset\<close> get
  \<^verbatim>\<open>tmp*sizeof(RT_Voxel)\<close> bytes.  A voxel of two \<^verbatim>\<open>int32_t\<close> and a pointer of 8 bytes
  takes 16 bytes, a power of two, so that product is exact in \<^verbatim>\<open>float\<close>: the array has
  as many voxels as the rounded count says.
\<close>

definition rtUddCreate :: "heap \<Rightarrow> RT_Scene \<Rightarrow> RT_Udd option \<times> RT_Scene \<times> heap" where
  "rtUddCreate h scene =
    (case malloc_ok h of
       (False, h1) \<Rightarrow> (None, scene, h1)
     | (True, h1) \<Rightarrow>
         (let lo = Vec3 (c0 (scn_dmin scene) - 0.001) (c1 (scn_dmin scene) - 0.001)
                        (c2 (scn_dmin scene) - 0.001);
              hi = Vec3 (c0 (scn_dmax scene) + 0.001) (c1 (scn_dmax scene) + 0.001)
                        (c2 (scn_dmax scene) + 0.001);
              ds0 = c0 hi - c0 lo + 0.001;
              ds1 = c1 hi - c1 lo + 0.001;
              ds2 = c2 hi - c2 lo + 0.001;
              scene' = scene\<lparr>scn_dmin := lo, scn_dmax := hi\<rparr>;
              v = (real_of_int (scn_nt scene) / (ds0 * ds1 * ds2)) powr 0.33333 + 0.001;
              tmp0 = real_of_int \<lceil>ds0 * v\<rceil>;
              tmp1 = real_of_int \<lceil>ds1 * v\<rceil>;
              tmp2 = real_of_int \<lceil>ds2 * v\<rceil>;
              nv = IVec3 (to_int32 tmp0) (to_int32 tmp1) (to_int32 tmp2);
              s = Vec3 (ds0 / tmp0) (ds1 / tmp1) (ds2 / tmp2);
              tmp = float_of_int32 (n0 nv * n1 nv * n2 nv)
          in case malloc_ok h1 of
               (False, h2) \<Rightarrow> (None, scene', h2)
             | (True, h2) \<Rightarrow>
                 (Some \<lparr>udd_s = s, udd_nv = nv, udd_v = replicate (nat (to_int32 tmp)) zero_voxel\<rparr>,
                  scene', h2)))"

section \<open>Voxelization\<close>

text \<open>A C \<^verbatim>\<open>for\<close> loop over the listed values, stopping at the first fault.\<close>

primrec for_each :: "('a \<Rightarrow> 's \<Rightarrow> fault + 's) \<Rightarrow> 'a list \<Rightarrow> 's \<Rightarrow> fault + 's" where
  "for_each f [] s = Inr s"
| "for_each f (x # xs) s = (case f x s of Inl e \<Rightarrow> Inl e | Inr s' \<Rightarrow> for_each f xs s')"

text \<open>
  The sign test of the general path, with the eight points as the code builds them:
  \<^verbatim>\<open>bfl\<close> and \<^verbatim>\<open>ufl\<close> have \<open>x2\<close> as their third component.  The result is true when the
  innermost \<^verbatim>\<open>continue\<close> is reached.
\<close>

definition corners_same_side :: "RT_Scene \<Rightarrow> RT_Udd \<Rightarrow> RT_Triangle \<Rightarrow> int \<Rightarrow> int \<Rightarrow> int \<Rightarrow> bool" where
  "corners_same_side scene self t i j k =
    (let x1 = c0 (scn_dmin scene) + real_of_int i * c0 (udd_s self);
         x2 = x1 + c0 (udd_s self);
         y1 = c1 (scn_dmin scene) + real_of_int j * c1 (udd_s self);
         y2 = y1 + c1 (udd_s self);
         z1 = c2 (scn_dmin scene) + real_of_int k * c2 (udd_s self);
         z2 = z1 + c2 (udd_s self);
         bcl = Vec3 x1 y1 z1; bcr = Vec3 x2 y1 z1;
         bfl = Vec3 x1 y1 x2; bfr = Vec3 x2 y1 z2;
         ucl = Vec3 x1 y2 z1; ucr = Vec3 x2 y2 z1;
         ufl = Vec3 x1 y2 x2; ufr = Vec3 x2 y2 z2;
         s1 = rtVectorDotp (tri_n t) bcl + tri_d t
     in s1 * (rtVectorDotp (tri_n t) bcr + tri_d t) > 0
        \<and> s1 * (rtVectorDotp (tri_n t) bfl + tri_d t) > 0
        \<and> s1 * (rtVectorDotp (tri_n t) bfr + tri_d t) > 0
        \<and> s1 * (rtVectorDotp (tri_n t) ucl + tri_d t) > 0
        \<and> s1 * (rtVectorDotp (tri_n t) ucr + tri_d t) > 0
        \<and> s1 * (rtVectorDotp (tri_n t) ufl + tri_d t) > 0
        \<and> s1 * (rtVectorDotp (tri_n t) ufr + tri_d t) > 0)"

text \<open>
  \<^verbatim>\<open>vptr = self->v + off; rtVoxelAddTriangle(vptr, t, BUFSIZE);\<close> The returned flag is
  dropped, as in the code.
\<close>

definition add_at :: "RT_Udd \<Rightarrow> int \<Rightarrow> tptr \<Rightarrow> int \<Rightarrow> heap \<Rightarrow> fault + (RT_Udd \<times> heap)" where
  "add_at self off t bufsize h =
    (if off < 0 \<or> int (length (udd_v self)) \<le> off then Inl OutOfBounds
     else case rtVoxelAddTriangle h (udd_v self ! nat off) t bufsize of
            Inl e \<Rightarrow> Inl e
          | Inr (ret, v', h') \<Rightarrow> Inr (self\<lparr>udd_v := (udd_v self)[nat off := v']\<rparr>, h'))"

definition BUFSIZE :: int where
  "BUFSIZE = 10"

text \<open>The body of the innermost loop.\<close>

definition voxelize_cell ::
    "RT_Scene \<Rightarrow> nat \<Rightarrow> int \<Rightarrow> int \<Rightarrow> int \<Rightarrow> RT_Udd \<times> heap \<Rightarrow> fault + (RT_Udd \<times> heap)" where
  "voxelize_cell scene m i j k st =
    (case st of (self, h) \<Rightarrow>
       if corners_same_side scene self (scn_t scene ! m) i j k then Inr (self, h)
       else add_at self (rtVoxelArrayOffset self i j k) (Some m) BUFSIZE h)"

text \<open>The body of the loop over the triangles, for the triangle \<^verbatim>\<open>scene->t + m\<close>.\<close>

definition voxelize_triangle :: "RT_Scene \<Rightarrow> nat \<Rightarrow> RT_Udd \<times> heap \<Rightarrow> fault + (RT_Udd \<times> heap)" where
  "voxelize_triangle scene m st =
    (case st of (self, h) \<Rightarrow>
      (let t = scn_t scene ! m;
           idx = (\<lambda>v. IVec3 (to_int32 ((c0 v - c0 (scn_dmin scene)) / c0 (udd_s self)))
                             (to_int32 ((c1 v - c1 (scn_dmin scene)) / c1 (udd_s self)))
                             (to_int32 ((c2 v - c2 (scn_dmin scene)) / c2 (udd_s self))));
           iidx = idx (tri_i t); jidx = idx (tri_j t); kidx = idx (tri_k t);
           min0 = MIN3 (n0 iidx) (n0 jidx) (n0 kidx);
           min1 = MIN3 (n1 iidx) (n1 jidx) (n1 kidx);
           min2 = MIN3 (n2 iidx) (n2 jidx) (n2 kidx);
           max0 = MAX3 (n0 iidx) (n0 jidx) (n0 kidx);
           max1 = MAX3 (n1 iidx) (n1 jidx) (n1 kidx);
           max2 = MAX3 (n2 iidx) (n2 jidx) (n2 kidx)
       in if min0 = max0 \<and> min1 = max1 \<and> min2 = max2
          then add_at self (rtVoxelArrayOffset self min0 min1 min2) (Some m) BUFSIZE h
          else for_each (\<lambda>i. for_each (\<lambda>j. for_each (\<lambda>k. voxelize_cell scene m i j k)
                                                   [min2..max2])
                                   [min1..max1])
                 [min0..max0] (self, h)))"

text \<open>
  The temporary array \<^verbatim>\<open>tmp\<close> is allocated first; when that fails the function returns
  with the grid untouched.
\<close>

definition rtUddVoxelize :: "heap \<Rightarrow> RT_Udd \<Rightarrow> RT_Scene \<Rightarrow> fault + (RT_Udd \<times> heap)" where
  "rtUddVoxelize h self scene =
    (case malloc_ok h of
       (False, h') \<Rightarrow> Inr (self, h')
     | (True, h') \<Rightarrow> for_each (voxelize_triangle scene) [0..<length (scn_t scene)] (self, h'))"

section \<open>Ray entry\<close>

text \<open>The block that keeps the two smallest positive distances.\<close>

definition keep_two :: "real \<Rightarrow> real \<times> real \<Rightarrow> real \<times> real" where
  "keep_two d m =
    (case m of (dmin1, dmin2) \<Rightarrow>
       if d > 0 then
         (if d < dmin1 then (d, dmin1)
          else if d < dmin2 then (dmin1, d)
          else (dmin1, dmin2))
       else (dmin1, dmin2))"

text \<open>One pass of the loop over the axes.\<close>

definition wall_distances :: "real \<Rightarrow> real \<Rightarrow> real \<Rightarrow> real \<Rightarrow> real \<times> real \<Rightarrow> real \<times> real" where
  "wall_distances lo hi oa ra m =
    (if ra \<noteq> 0 then keep_two ((hi - oa) / ra) (keep_two ((lo - oa) / ra) m) else m)"

definition two_nearest_walls :: "RT_Scene \<Rightarrow> vec3 \<Rightarrow> vec3 \<Rightarrow> real \<times> real" where
  "two_nearest_walls scene ro r =
     wall_distances (c2 (scn_dmin scene)) (c2 (scn_dmax scene)) (c2 ro) (c2 r)
       (wall_distances (c1 (scn_dmin scene)) (c1 (scn_dmax scene)) (c1 ro) (c1 r)
         (wall_distances (c0 (scn_dmin scene)) (c0 (scn_dmax scene)) (c0 ro) (c0 r)
           (FLT_MAX, FLT_MAX)))"

definition rtUddFindStartupVoxel ::
    "RT_Udd \<Rightarrow> RT_Scene \<Rightarrow> vec3 \<Rightarrow> vec3 \<Rightarrow> int \<times> int \<times> int \<times> int" where
  "rtUddFindStartupVoxel self scene ro r =
    (case rtVertexGetVoxel scene self ro of
       (ret, i, j, k) \<Rightarrow>
         if ret \<noteq> 0 then (1, i, j, k)
         else
           (case two_nearest_walls scene ro r of
              (dmin1, dmin2) \<Rightarrow>
                (case rtVertexGetVoxel scene self (rtVectorRaypoint ro r dmin1) of
                   (ret, i, j, k) \<Rightarrow>
                     if ret \<noteq> 0 then (1, i, j, k)
                     else
                       (case rtVertexGetVoxel scene self (rtVectorRaypoint ro r dmin2) of
                          (ret, i, j, k) \<Rightarrow>
                            if ret \<noteq> 0 then (1, i, j, k) else (0, i, j, k)))))"

section \<open>Traversal\<close>

text \<open>
  The intersection test \<^verbatim>\<open>(*t)->isint(*t, o, r, &d, &dmin)\<close> is a parameter: it gets the
  triangle, the ray and the current bound \<^verbatim>\<open>dmin\<close>, and answers \<^verbatim>\<open>Some d\<close> for a hit at
  distance \<^verbatim>\<open>d\<close>.  The spec's contract makes it pure, so it leaves \<^verbatim>\<open>dmin\<close> alone.
\<close>

type_synonym isint_fn = "nat \<Rightarrow> vec3 \<Rightarrow> vec3 \<Rightarrow> real \<Rightarrow> real option"

text \<open>The inner loop over the triangles of a voxel, on the pair \<^verbatim>\<open>(dmin, nearest)\<close>.\<close>

fun scan_voxel ::
    "isint_fn \<Rightarrow> tptr \<Rightarrow> vec3 \<Rightarrow> vec3 \<Rightarrow> tptr list \<Rightarrow> real \<times> tptr \<Rightarrow> fault + (real \<times> tptr)" where
  "scan_voxel isint current ro r [] acc = Inr acc"
| "scan_voxel isint current ro r (t # ts) (dmin, nearest) =
    (if t \<noteq> current then
       (case t of
          None \<Rightarrow> Inl NullDeref
        | Some m \<Rightarrow>
            (case isint m ro r dmin of
               Some d \<Rightarrow>
                 if d < dmin then scan_voxel isint current ro r ts (d, t)
                 else scan_voxel isint current ro r ts (dmin, nearest)
             | None \<Rightarrow> scan_voxel isint current ro r ts (dmin, nearest)))
     else scan_voxel isint current ro r ts (dmin, nearest))"

text \<open>
  The block \<^verbatim>\<open>// check intersections in current voxel\<close>: the pair \<^verbatim>\<open>(dmin, nearest)\<close> it
  ends with, \<^verbatim>\<open>nearest\<close> being \<^verbatim>\<open>NULL\<close> when the voxel is empty.
\<close>

definition check_voxel ::
    "isint_fn \<Rightarrow> RT_Udd \<Rightarrow> tptr \<Rightarrow> vec3 \<Rightarrow> vec3 \<Rightarrow> dda_setup \<Rightarrow> dda_state
       \<Rightarrow> fault + (real \<times> tptr)" where
  "check_voxel isint self current ro r c s =
    (let off = rtVoxelArrayOffset self (cur_i s) (cur_j s) (cur_k s)
     in if off < 0 \<or> int (length (udd_v self)) \<le> off then Inl OutOfBounds
        else
          (let voxel = udd_v self ! nat off
           in if vox_nt voxel > 0 then
                (case vox_t voxel of
                   None \<Rightarrow> Inl NullDeref
                 | Some arr \<Rightarrow>
                     if nat (vox_nt voxel) > length arr then Inl OutOfBounds
                     else scan_voxel isint current ro r (take (nat (vox_nt voxel)) arr)
                            (MIN3 (cur_tx s + dda_dtx c) (cur_ty s + dda_dty c)
                                  (cur_tz s + dda_dtz c), None))
              else Inr (0, None)))"

text \<open>
  One pass of \<^verbatim>\<open>while(1)\<close>: \<^verbatim>\<open>Inl\<close> when the function returns (the pointer returned and
  the buffer \<^verbatim>\<open>ipoint\<close>), \<^verbatim>\<open>Inr\<close> with the loop variables of the next pass.
\<close>

definition loop_body ::
    "isint_fn \<Rightarrow> RT_Udd \<Rightarrow> tptr \<Rightarrow> vec3 \<Rightarrow> vec3 \<Rightarrow> vec3 \<Rightarrow> dda_setup \<Rightarrow> dda_state
       \<Rightarrow> (fault + tptr \<times> vec3) + dda_state" where
  "loop_body isint self current ipoint ro r c s =
    (case check_voxel isint self current ro r c s of
       Inl e \<Rightarrow> Inl (Inl e)
     | Inr (dmin, Some m) \<Rightarrow> Inl (Inr (Some m, rtVectorRaypoint ro r dmin))
     | Inr (dmin, None) \<Rightarrow>
         (let s' = proceed c s
          in if cur_i s' < 0 \<or> cur_i s' \<ge> n0 (udd_nv self) then Inl (Inr (None, ipoint))
             else if cur_j s' < 0 \<or> cur_j s' \<ge> n1 (udd_nv self) then Inl (Inr (None, ipoint))
             else if cur_k s' < 0 \<or> cur_k s' \<ge> n2 (udd_nv self) then Inl (Inr (None, ipoint))
             else Inr s'))"

partial_function (option) traverse_loop ::
    "isint_fn \<Rightarrow> RT_Udd \<Rightarrow> tptr \<Rightarrow> vec3 \<Rightarrow> vec3 \<Rightarrow> vec3 \<Rightarrow> dda_setup \<Rightarrow> dda_state
       \<Rightarrow> (fault + tptr \<times> vec3) option" where
  "traverse_loop isint self current ipoint ro r c s =
    (case loop_body isint self current ipoint ro r c s of
       Inl res \<Rightarrow> Some res
     | Inr s' \<Rightarrow> traverse_loop isint self current ipoint ro r c s')"

definition traverse_setup :: "RT_Udd \<Rightarrow> RT_Scene \<Rightarrow> vec3 \<Rightarrow> vec3 \<Rightarrow> int \<Rightarrow> int \<Rightarrow> int
    \<Rightarrow> dda_setup \<times> dda_state" where
  "traverse_setup self scene ro r i j k =
    (let x1 = c0 (scn_dmin scene) + real_of_int i * c0 (udd_s self);
         x2 = x1 + c0 (udd_s self);
         y1 = c1 (scn_dmin scene) + real_of_int j * c1 (udd_s self);
         y2 = y1 + c1 (udd_s self);
         z1 = c2 (scn_dmin scene) + real_of_int k * c2 (udd_s self);
         z2 = z1 + c2 (udd_s self);
         ax = axis_setup x1 x2 (c0 ro) (c0 r);
         ay = axis_setup y1 y2 (c1 ro) (c1 r);
         az = axis_setup z1 z2 (c2 ro) (c2 r)
     in (\<lparr>dda_dtx = fst ax, dda_dty = fst ay, dda_dtz = fst az,
          dda_di = step_dir (c0 r), dda_dj = step_dir (c1 r), dda_dk = step_dir (c2 r)\<rparr>,
         \<lparr>cur_i = i, cur_j = j, cur_k = k,
          cur_tx = snd ax, cur_ty = snd ay, cur_tz = snd az\<rparr>))"

text \<open>
  \<^verbatim>\<open>None\<close> is a loop that never returns; \<^verbatim>\<open>Some (Inr (p, ip))\<close> is the return of the
  pointer \<open>p\<close> (\<^verbatim>\<open>NULL\<close> for no hit) with \<open>ip\<close> in the buffer \<^verbatim>\<open>ipoint\<close>.
\<close>

definition rtUddTraverse ::
    "isint_fn \<Rightarrow> RT_Udd \<Rightarrow> RT_Scene \<Rightarrow> tptr \<Rightarrow> vec3 \<Rightarrow> vec3 \<Rightarrow> vec3 \<Rightarrow> int \<Rightarrow> int \<Rightarrow> int
       \<Rightarrow> (fault + tptr \<times> vec3) option" where
  "rtUddTraverse isint self scene current ipoint ro r i j k =
    (case traverse_setup self scene ro r i j k of
       (c, s) \<Rightarrow> traverse_loop isint self current ipoint ro r c s)"

section \<open>Notions for the traversal\<close>

text \<open>The outcome of at most \<open>n\<close> passes of the loop of the traverser.\<close>

primrec passes ::
    "nat \<Rightarrow> isint_fn \<Rightarrow> RT_Udd \<Rightarrow> tptr \<Rightarrow> vec3 \<Rightarrow> vec3 \<Rightarrow> vec3 \<Rightarrow> dda_setup \<Rightarrow> dda_state
       \<Rightarrow> (fault + tptr \<times> vec3) + dda_state" where
  "passes 0 isint self current ipoint ro r c s = Inr s"
| "passes (Suc n) isint self current ipoint ro r c s =
    (case loop_body isint self current ipoint ro r c s of
       Inl res \<Rightarrow> Inl res
     | Inr s' \<Rightarrow> passes n isint self current ipoint ro r c s')"

text \<open>
  A grid as the builder and the voxelizer leave it: one voxel per index triple, each voxel
  well formed and holding no null pointer among its triangles.
\<close>

definition udd_wf :: "RT_Udd \<Rightarrow> bool" where
  "udd_wf self =
    (int (length (udd_v self)) = n0 (udd_nv self) * n1 (udd_nv self) * n2 (udd_nv self)
     \<and> list_all (\<lambda>v. voxel_wf v \<and> None \<notin> set (stored v)) (udd_v self))"

text \<open>
  The number of steps after which, at the latest, an index has left the grid: every step
  moves one index by its fixed direction.
\<close>

definition steps_left :: "RT_Udd \<Rightarrow> dda_setup \<Rightarrow> dda_state \<Rightarrow> nat" where
  "steps_left self c s =
     nat (if dda_di c = 1 then n0 (udd_nv self) - cur_i s else cur_i s + 1)
   + nat (if dda_dj c = 1 then n1 (udd_nv self) - cur_j s else cur_j s + 1)
   + nat (if dda_dk c = 1 then n2 (udd_nv self) - cur_k s else cur_k s + 1)"

text \<open>The index steps \<^verbatim>\<open>di\<close>, \<^verbatim>\<open>dj\<close>, \<^verbatim>\<open>dk\<close> are 1 or -1.\<close>

definition unit_steps :: "dda_setup \<Rightarrow> bool" where
  "unit_steps c = ((dda_di c = 1 \<or> dda_di c = - 1) \<and> (dda_dj c = 1 \<or> dda_dj c = - 1)
     \<and> (dda_dk c = 1 \<or> dda_dk c = - 1))"

text \<open>Two grids of the same resolution, voxel size and number of voxels.\<close>

definition same_shape :: "RT_Udd \<Rightarrow> RT_Udd \<Rightarrow> bool" where
  "same_shape a b =
     (udd_nv b = udd_nv a \<and> udd_s b = udd_s a \<and> length (udd_v b) = length (udd_v a))"

section \<open>Ray-triangle intersection of the tracer\<close>

text \<open>
  Modelled from the spec: the helpers of \<^verbatim>\<open>vectormath.h\<close> that \<^verbatim>\<open>raytrace.c\<close> calls
  are not among the sources.  \<^verbatim>\<open>vec_vector_make\<close> is the vector from its first point to
  its second (the scene header describes \<^verbatim>\<open>ij\<close> as the vector from \<^verbatim>\<open>i\<close> to \<^verbatim>\<open>j\<close>),
  \<^verbatim>\<open>vec_vector_crossp\<close> the cross product; \<^verbatim>\<open>vec_vector_dotp\<close> is the dot product
  \<open>rtVectorDotp\<close> above.
\<close>

definition vec_vector_make :: "vec3 \<Rightarrow> vec3 \<Rightarrow> vec3" where
  "vec_vector_make a b = Vec3 (c0 b - c0 a) (c1 b - c1 a) (c2 b - c2 a)"

definition vec_vector_crossp :: "vec3 \<Rightarrow> vec3 \<Rightarrow> vec3" where
  "vec_vector_crossp a b =
     Vec3 (c1 a * c2 b - c2 a * c1 b) (c2 a * c0 b - c0 a * c2 b) (c0 a * c1 b - c1 a * c0 b)"

definition EPSILON :: real where
  "EPSILON = 0.000001"

text \<open>
  \<^verbatim>\<open>ray_triangle_intersection\<close> of \<^verbatim>\<open>raytrace.c\<close>: \<^verbatim>\<open>None\<close> is the return of 0,
  \<^verbatim>\<open>Some d\<close> the return of 1 with the distance \<open>d\<close> stored.
\<close>

definition ray_triangle_intersection :: "RT_Triangle \<Rightarrow> vec3 \<Rightarrow> vec3 \<Rightarrow> real option" where
  "ray_triangle_intersection t ro r =
    (let ij = vec_vector_make (tri_i t) (tri_j t);
         ik = vec_vector_make (tri_i t) (tri_k t);
         pvec = vec_vector_crossp r ik;
         det = rtVectorDotp ij pvec
     in if det > - EPSILON \<and> det < EPSILON then None
        else
          (let inv_det = 1 / det;
               tvec = vec_vector_make (tri_i t) ro;
               u = rtVectorDotp tvec pvec * inv_det
           in if u < 0 \<or> u > 1 then None
              else
                (let qvec = vec_vector_crossp tvec ij;
                     v = rtVectorDotp r qvec * inv_det
                 in if v < 0 \<or> u + v > 1 then None
                    else Some (rtVectorDotp ik qvec * inv_det))))"

text \<open>The intersection test every triangle of a scene carries when this kernel is used.\<close>

definition scene_isint :: "RT_Scene \<Rightarrow> isint_fn" where
  "scene_isint scene m ro r dmin = ray_triangle_intersection (scn_t scene ! m) ro r"

section \<open>Notions of the specification\<close>

text \<open>The axis-aligned box of the voxel \<open>(i, j, k)\<close>, faces included.\<close>

definition voxel_box :: "RT_Scene \<Rightarrow> RT_Udd \<Rightarrow> int \<Rightarrow> int \<Rightarrow> int \<Rightarrow> vec3 \<Rightarrow> bool" where
  "voxel_box scene udd i j k p =
    (c0 (scn_dmin scene) + real_of_int i * c0 (udd_s udd) \<le> c0 p
     \<and> c0 p \<le> c0 (scn_dmin scene) + real_of_int (i + 1) * c0 (udd_s udd)
     \<and> c1 (scn_dmin scene) + real_of_int j * c1 (udd_s udd) \<le> c1 p
     \<and> c1 p \<le> c1 (scn_dmin scene) + real_of_int (j + 1) * c1 (udd_s udd)
     \<and> c2 (scn_dmin scene) + real_of_int k * c2 (udd_s udd) \<le> c2 p
     \<and> c2 p \<le> c2 (scn_dmin scene) + real_of_int (k + 1) * c2 (udd_s udd))"

text \<open>The domain, that is the box of the bounds of the scene, faces included.\<close>

definition in_domain :: "RT_Scene \<Rightarrow> vec3 \<Rightarrow> bool" where
  "in_domain scene p =
    (c0 (scn_dmin scene) \<le> c0 p \<and> c0 p \<le> c0 (scn_dmax scene)
     \<and> c1 (scn_dmin scene) \<le> c1 p \<and> c1 p \<le> c1 (scn_dmax scene)
     \<and> c2 (scn_dmin scene) \<le> c2 p \<and> c2 p \<le> c2 (scn_dmax scene))"

text \<open>
  The eight corner points of the box of a voxel, and the value \<open>\<sigma>(p) = n\<cdot>p + d\<close> of the
  plane of a triangle at a point.
\<close>

definition voxel_corners :: "RT_Scene \<Rightarrow> RT_Udd \<Rightarrow> int \<Rightarrow> int \<Rightarrow> int \<Rightarrow> vec3 list" where
  "voxel_corners scene udd i j k =
    (let x1 = c0 (scn_dmin scene) + real_of_int i * c0 (udd_s udd);
         x2 = c0 (scn_dmin scene) + real_of_int (i + 1) * c0 (udd_s udd);
         y1 = c1 (scn_dmin scene) + real_of_int j * c1 (udd_s udd);
         y2 = c1 (scn_dmin scene) + real_of_int (j + 1) * c1 (udd_s udd);
         z1 = c2 (scn_dmin scene) + real_of_int k * c2 (udd_s udd);
         z2 = c2 (scn_dmin scene) + real_of_int (k + 1) * c2 (udd_s udd)
     in [Vec3 x1 y1 z1, Vec3 x2 y1 z1, Vec3 x1 y1 z2, Vec3 x2 y1 z2,
         Vec3 x1 y2 z1, Vec3 x2 y2 z1, Vec3 x1 y2 z2, Vec3 x2 y2 z2])"

definition plane_sigma :: "RT_Triangle \<Rightarrow> vec3 \<Rightarrow> real" where
  "plane_sigma t p = rtVectorDotp (tri_n t) p + tri_d t"

definition same_strict_sign :: "real list \<Rightarrow> bool" where
  "same_strict_sign xs = (list_all (\<lambda>x. 0 < x) xs \<or> list_all (\<lambda>x. x < 0) xs)"

text \<open>The grid invariant on the indices: the entry voxel lies in the grid.\<close>

definition in_grid :: "RT_Udd \<Rightarrow> int \<Rightarrow> int \<Rightarrow> int \<Rightarrow> bool" where
  "in_grid udd i j k =
    (0 \<le> i \<and> i < n0 (udd_nv udd) \<and> 0 \<le> j \<and> j < n1 (udd_nv udd)
     \<and> 0 \<le> k \<and> k < n2 (udd_nv udd))"

section \<open>Concrete inputs\<close>

text \<open>A tie of the next crossings of the x and y planes, below that of the z plane.\<close>

definition tie_setup :: dda_setup where
  "tie_setup = \<lparr>dda_dtx = 1, dda_dty = 1, dda_dtz = 2, dda_di = 1, dda_dj = 1, dda_dk = 1\<rparr>"

definition tie_state :: dda_state where
  "tie_state = \<lparr>cur_i = 0, cur_j = 0, cur_k = 0, cur_tx = 0, cur_ty = 0, cur_tz = 0\<rparr>"

text \<open>
  The next x crossing strictly the smallest; and a tie of the next y and z crossings,
  with that of x no smaller.
\<close>

definition x_first_setup :: dda_setup where
  "x_first_setup =
     \<lparr>dda_dtx = 1, dda_dty = 2, dda_dtz = 3, dda_di = 1, dda_dj = 1, dda_dk = 1\<rparr>"

definition z_tie_setup :: dda_setup where
  "z_tie_setup =
     \<lparr>dda_dtx = 2, dda_dty = 1, dda_dtz = 1, dda_di = 1, dda_dj = 1, dda_dk = 1\<rparr>"

text \<open>An empty grid of 2 by 3 by 4 voxels.\<close>

definition grid234 :: RT_Udd where
  "grid234 = \<lparr>udd_s = Vec3 1 1 1, udd_nv = IVec3 2 3 4, udd_v = replicate 24 zero_voxel\<rparr>"

text \<open>
  A scene of two triangles.  \<open>tri_near\<close> lies in the plane \<open>-0.6 x + 0.8 z = 1.5\<close> with
  its unit normal, \<open>tri_far\<close> in the plane \<open>z = 1.96\<close>.  \<open>scene1\<close> is \<open>scene0\<close> after the
  inflation of its bounds, \<open>grid0\<close> the grid built for it and \<open>grid1\<close> that grid after
  voxelization.
\<close>

definition tri_near :: RT_Triangle where
  "tri_near = \<lparr>tri_i = Vec3 0 (1/10) (15/8), tri_j = Vec3 0 (9/10) (15/8),
               tri_k = Vec3 (1/10) (1/10) (39/20), tri_n = Vec3 (- (3/5)) 0 (4/5),
               tri_d = - (3/2)\<rparr>"

definition tri_far :: RT_Triangle where
  "tri_far = \<lparr>tri_i = Vec3 (1/100) (1/100) (49/25), tri_j = Vec3 (2/5) (1/100) (49/25),
              tri_k = Vec3 (1/100) (2/5) (49/25), tri_n = Vec3 0 0 1,
              tri_d = - (49/25)\<rparr>"

definition scene0 :: RT_Scene where
  "scene0 = \<lparr>scn_dmin = Vec3 0 0 0, scn_dmax = Vec3 (997/1000) (997/1000) (1997/1000),
             scn_t = [tri_near, tri_far]\<rparr>"

definition scene1 :: RT_Scene where
  "scene1 = scene0\<lparr>scn_dmin := Vec3 (- (1/1000)) (- (1/1000)) (- (1/1000)),
                   scn_dmax := Vec3 (998/1000) (998/1000) (1998/1000)\<rparr>"

definition grid0 :: RT_Udd where
  "grid0 = \<lparr>udd_s = Vec3 (1/2) (1/2) (2/3), udd_nv = IVec3 2 2 3,
            udd_v = replicate 12 zero_voxel\<rparr>"

definition grid1 :: RT_Udd where
  "grid1 = grid0\<lparr>udd_v := (udd_v grid0)[2 := \<lparr>vox_nt = 1, vox_p = 9,
       vox_t = Some (Some 1 # replicate 9 None)\<rparr>]\<rparr>"

text \<open>
  The grid a voxelizer without the corner slip gives for the same scene: the voxel
  \<open>(0, 0, 2)\<close> holds both triangles.
\<close>

definition grid2 :: RT_Udd where
  "grid2 = grid0\<lparr>udd_v := (udd_v grid0)[2 := \<lparr>vox_nt = 2, vox_p = 8,
       vox_t = Some (Some 0 # Some 1 # replicate 8 None)\<rparr>]\<rparr>"

text \<open>A ray that starts inside the voxel \<open>(0, 0, 2)\<close> and runs along the z axis.\<close>

definition ray_o :: vec3 where
  "ray_o = Vec3 (1/20) (1/5) (3/2)"

definition ray_r :: vec3 where
  "ray_r = Vec3 0 0 1"

text \<open>
  A scene without triangles in the unit cube.  \<open>empty_scene1\<close> is the scene after the
  inflation of its bounds and \<open>empty_grid\<close> the grid built for it.
\<close>

definition empty_scene :: RT_Scene where
  "empty_scene = \<lparr>scn_dmin = Vec3 0 0 0, scn_dmax = Vec3 1 1 1, scn_t = []\<rparr>"

definition empty_scene1 :: RT_Scene where
  "empty_scene1 = \<lparr>scn_dmin = Vec3 (- (1/1000)) (- (1/1000)) (- (1/1000)),
                    scn_dmax = Vec3 (1001/1000) (1001/1000) (1001/1000), scn_t = []\<rparr>"

definition empty_grid :: RT_Udd where
  "empty_grid = \<lparr>udd_s = Vec3 (1003/1000) (1003/1000) (1003/1000), udd_nv = IVec3 1 1 1,
                  udd_v = [zero_voxel]\<rparr>"

text \<open>
  A ray that starts outside all three slabs of the domain of \<open>scene1\<close>, with a unit
  direction, and enters the domain through the face \<open>z = dmin\<close> at the parameter 2.8.
\<close>

definition far_o :: vec3 where
  "far_o = Vec3 (- (201/1000)) (- (601/1000)) (- (2401/1000))"

definition far_r :: vec3 where
  "far_r = Vec3 (2/7) (3/7) (6/7)"

text \<open>
  A ray that starts outside the domain of \<open>scene1\<close>, less than a voxel below the face
  \<open>x = dmin\<close>, and runs away from it.
\<close>

definition out_o :: vec3 where
  "out_o = Vec3 (- (1/5)) (1/5) (1/5)"

definition out_r :: vec3 where
  "out_r = Vec3 (- 1) 0 0"

section \<open>The linear voxel index\<close>

lemma offset_upper:
  fixes i j k nx ny nz :: int
  assumes "0 \<le> i" "i < nx" "0 \<le> j" "j < ny" "0 \<le> k" "k < nz"
  shows "(i * ny + j) * nz + k < nx * ny * nz"
proof -
  have "i * ny \<le> (nx - 1) * ny"
    using assms by (intro mult_right_mono) auto
  then have a: "i * ny + j + 1 \<le> nx * ny"
    using assms by (simp add: algebra_simps)
  have "(i * ny + j + 1) * nz \<le> (nx * ny) * nz"
    using a assms by (intro mult_right_mono) auto
  then show ?thesis
    using assms by (simp add: algebra_simps)
qed

lemma offset_inj:
  fixes i j k nx ny nz :: int
  assumes "0 \<le> j" "j < ny" "0 \<le> k" "k < nz" "0 \<le> j'" "j' < ny" "0 \<le> k'" "k' < nz"
    and "(i * ny + j) * nz + k = (i' * ny + j') * nz + k'"
  shows "i = i' \<and> j = j' \<and> k = k'"
proof -
  have d: "((i * ny + j) * nz + k) div nz = i * ny + j"
    using assms(3,4) by simp
  have d': "((i' * ny + j') * nz + k') div nz = i' * ny + j'"
    using assms(7,8) by simp
  have m: "((i * ny + j) * nz + k) mod nz = k"
    using assms(3,4) by simp
  have m': "((i' * ny + j') * nz + k') mod nz = k'"
    using assms(7,8) by simp
  have k: "k = k'"
    using m m' assms(9) by simp
  have e: "i * ny + j = i' * ny + j'"
    using d d' assms(9) by simp
  have "(i * ny + j) div ny = i" "(i * ny + j) mod ny = j"
    using assms(1,2) by simp_all
  moreover have "(i' * ny + j') div ny = i'" "(i' * ny + j') mod ny = j'"
    using assms(5,6) by simp_all
  ultimately show ?thesis
    using e k by metis
qed

lemma offset_in_array:
  assumes "in_grid udd i j k"
    and "int (length (udd_v udd)) = n0 (udd_nv udd) * n1 (udd_nv udd) * n2 (udd_nv udd)"
  shows "0 \<le> rtVoxelArrayOffset udd i j k"
    and "rtVoxelArrayOffset udd i j k < int (length (udd_v udd))"
proof -
  have g: "0 \<le> i" "i < n0 (udd_nv udd)" "0 \<le> j" "j < n1 (udd_nv udd)"
      "0 \<le> k" "k < n2 (udd_nv udd)"
    using assms(1) by (simp_all add: in_grid_def)
  show "0 \<le> rtVoxelArrayOffset udd i j k"
    using g by (simp add: rtVoxelArrayOffset_def)
  show "rtVoxelArrayOffset udd i j k < int (length (udd_v udd))"
    unfolding rtVoxelArrayOffset_def assms(2) using g by (rule offset_upper)
qed

text \<open>
  Claim C9.  For indices \<open>0 \<le> i < nx\<close>, \<open>0 \<le> j < ny\<close>, \<open>0 \<le> k < nz\<close> the value
  \<open>(i\<cdot>ny + j)\<cdot>nz + k\<close> of \<^verbatim>\<open>rtVoxelArrayOffset\<close> is below \<open>nx\<cdot>ny\<cdot>nz\<close>, and no other
  index triple of that range has the same value.  The last conjunct is the range of the
  C computation: when the number of voxels fits \<^verbatim>\<open>int32_t\<close>, so does every intermediate
  result, and the integer model is the machine computation.
\<close>

theorem rtVoxelArrayOffset_in_range_injective:
  assumes "0 \<le> i" "i < n0 (udd_nv udd)" "0 \<le> j" "j < n1 (udd_nv udd)"
    "0 \<le> k" "k < n2 (udd_nv udd)"
  shows "0 \<le> rtVoxelArrayOffset udd i j k
    \<and> rtVoxelArrayOffset udd i j k < n0 (udd_nv udd) * n1 (udd_nv udd) * n2 (udd_nv udd)
    \<and> (\<forall>i' j' k'. 0 \<le> i' \<and> i' < n0 (udd_nv udd) \<and> 0 \<le> j' \<and> j' < n1 (udd_nv udd)
          \<and> 0 \<le> k' \<and> k' < n2 (udd_nv udd)
          \<and> rtVoxelArrayOffset udd i' j' k' = rtVoxelArrayOffset udd i j k
          \<longrightarrow> i' = i \<and> j' = j \<and> k' = k)
    \<and> (n0 (udd_nv udd) * n1 (udd_nv udd) * n2 (udd_nv udd) \<le> 2 ^ 31 - 1
          \<longrightarrow> (\<forall>x \<in> {i * n1 (udd_nv udd), i * n1 (udd_nv udd) + j,
                       (i * n1 (udd_nv udd) + j) * n2 (udd_nv udd),
                       rtVoxelArrayOffset udd i j k}. 0 \<le> x \<and> x \<le> 2 ^ 31 - 1))"
proof -
  let ?ny = "n1 (udd_nv udd)" and ?nz = "n2 (udd_nv udd)" and ?nx = "n0 (udd_nv udd)"
  have up: "(i * ?ny + j) * ?nz + k < ?nx * ?ny * ?nz"
    using assms by (rule offset_upper)
  have a: "0 \<le> i * ?ny"
    using assms by simp
  have b: "0 \<le> i * ?ny + j"
    using a assms by simp
  have c: "0 \<le> (i * ?ny + j) * ?nz"
    using b assms by simp
  have d: "i * ?ny + j \<le> (i * ?ny + j) * ?nz"
    using b assms(5,6) by (simp add: mult_le_cancel_left1)
  have inj: "i' = i \<and> j' = j \<and> k' = k"
    if "0 \<le> j'" "j' < ?ny" "0 \<le> k'" "k' < ?nz"
       "(i' * ?ny + j') * ?nz + k' = (i * ?ny + j) * ?nz + k" for i' j' k'
    using offset_inj [OF that(1-4) assms(3-6) that(5)] .
  show ?thesis
    unfolding rtVoxelArrayOffset_def
    using up a b c d assms(3,5) inj by auto
qed

theorem rtVoxelArrayOffset_in_range_injective_witness:
  "(0::int) \<le> 1 \<and> 1 < n0 (udd_nv grid234) \<and> (0::int) \<le> 2 \<and> 2 < n1 (udd_nv grid234)
   \<and> (0::int) \<le> 3 \<and> 3 < n2 (udd_nv grid234)
   \<and> 0 \<le> rtVoxelArrayOffset grid234 1 2 3
   \<and> rtVoxelArrayOffset grid234 1 2 3
       < n0 (udd_nv grid234) * n1 (udd_nv grid234) * n2 (udd_nv grid234)
   \<and> rtVoxelArrayOffset grid234 1 2 3 \<le> 2 ^ 31 - 1"
proof -
  have h: "(0::int) \<le> 1" "1 < n0 (udd_nv grid234)" "(0::int) \<le> 2" "2 < n1 (udd_nv grid234)"
      "(0::int) \<le> 3" "3 < n2 (udd_nv grid234)"
    by (simp_all add: grid234_def)
  have s: "n0 (udd_nv grid234) * n1 (udd_nv grid234) * n2 (udd_nv grid234) \<le> 2 ^ 31 - 1"
    by (simp add: grid234_def)
  from rtVoxelArrayOffset_in_range_injective [OF h] s h
  show ?thesis
    by simp
qed

section \<open>Ties of the stepping\<close>

text \<open>
  Claim C6, as stated, fails: with the next crossings of the x and y planes equal and
  below that of the z plane, the code leaves the x index alone and steps the y index.
\<close>

theorem proceed_tie_x_y_counterexample:
  "cur_tx tie_state + dda_dtx tie_setup = cur_ty tie_state + dda_dty tie_setup
   \<and> cur_tx tie_state + dda_dtx tie_setup < cur_tz tie_state + dda_dtz tie_setup
   \<and> cur_i (proceed tie_setup tie_state) = cur_i tie_state
   \<and> cur_j (proceed tie_setup tie_state) = cur_j tie_state + dda_dj tie_setup
   \<and> cur_i (proceed tie_setup tie_state) \<noteq> cur_i tie_state + dda_di tie_setup"
  by (simp add: proceed_def tie_setup_def tie_state_def)

text \<open>
  Claim C6, amended.  Ties are resolved by the fixed priority z before y before x: among
  the axes whose next crossing is smallest, the last one in the order x, y, z is stepped.
  When x and y tie below z the y index is stepped; when z ties with the smallest of the
  others the z index is stepped.  In full: the x step is taken when the next x crossing is
  strictly below the two others, the y step when the next y crossing is at most that of x
  and strictly below that of z, the z step in every other case; and an index changes in
  no case but its own.
\<close>

theorem proceed_tie_priority:
  assumes "tx_n = cur_tx s + dda_dtx c" "ty_n = cur_ty s + dda_dty c"
    "tz_n = cur_tz s + dda_dtz c"
  shows "(tx_n = ty_n \<and> tx_n < tz_n \<longrightarrow>
            proceed c s = s\<lparr>cur_j := cur_j s + dda_dj c, cur_ty := ty_n\<rparr>)
    \<and> (tx_n = tz_n \<and> tx_n \<le> ty_n \<longrightarrow>
            proceed c s = s\<lparr>cur_k := cur_k s + dda_dk c, cur_tz := tz_n\<rparr>)
    \<and> (ty_n = tz_n \<and> ty_n \<le> tx_n \<longrightarrow>
            proceed c s = s\<lparr>cur_k := cur_k s + dda_dk c, cur_tz := tz_n\<rparr>)
    \<and> (tx_n < ty_n \<and> tx_n < tz_n \<longrightarrow>
            proceed c s = s\<lparr>cur_i := cur_i s + dda_di c, cur_tx := tx_n\<rparr>)
    \<and> (ty_n \<le> tx_n \<and> ty_n < tz_n \<longrightarrow>
            proceed c s = s\<lparr>cur_j := cur_j s + dda_dj c, cur_ty := ty_n\<rparr>)
    \<and> (tz_n \<le> tx_n \<and> tz_n \<le> ty_n \<longrightarrow>
            proceed c s = s\<lparr>cur_k := cur_k s + dda_dk c, cur_tz := tz_n\<rparr>)
    \<and> (\<not> (tx_n < ty_n \<and> tx_n < tz_n) \<longrightarrow> cur_i (proceed c s) = cur_i s)
    \<and> (\<not> (ty_n \<le> tx_n \<and> ty_n < tz_n) \<longrightarrow> cur_j (proceed c s) = cur_j s)
    \<and> (\<not> (tz_n \<le> tx_n \<and> tz_n \<le> ty_n) \<longrightarrow> cur_k (proceed c s) = cur_k s)"
proof -
  have 1: "tx_n = ty_n \<and> tx_n < tz_n \<longrightarrow>
            proceed c s = s\<lparr>cur_j := cur_j s + dda_dj c, cur_ty := ty_n\<rparr>"
    unfolding assms by (simp add: proceed_def Let_def)
  have 2: "tx_n = tz_n \<and> tx_n \<le> ty_n \<longrightarrow>
            proceed c s = s\<lparr>cur_k := cur_k s + dda_dk c, cur_tz := tz_n\<rparr>"
    unfolding assms by (simp add: proceed_def Let_def)
  have 3: "ty_n = tz_n \<and> ty_n \<le> tx_n \<longrightarrow>
            proceed c s = s\<lparr>cur_k := cur_k s + dda_dk c, cur_tz := tz_n\<rparr>"
    unfolding assms by (simp add: proceed_def Let_def)
  have 4: "tx_n < ty_n \<and> tx_n < tz_n \<longrightarrow>
            proceed c s = s\<lparr>cur_i := cur_i s + dda_di c, cur_tx := tx_n\<rparr>"
    unfolding assms by (simp add: proceed_def Let_def)
  have 5: "ty_n \<le> tx_n \<and> ty_n < tz_n \<longrightarrow>
            proceed c s = s\<lparr>cur_j := cur_j s + dda_dj c, cur_ty := ty_n\<rparr>"
    unfolding assms by (simp add: proceed_def Let_def)
  have 6: "tz_n \<le> tx_n \<and> tz_n \<le> ty_n \<longrightarrow>
            proceed c s = s\<lparr>cur_k := cur_k s + dda_dk c, cur_tz := tz_n\<rparr>"
    unfolding assms by (simp add: proceed_def Let_def)
  have 7: "\<not> (tx_n < ty_n \<and> tx_n < tz_n) \<longrightarrow> cur_i (proceed c s) = cur_i s"
    unfolding assms by (simp add: proceed_def Let_def)
  have 8: "\<not> (ty_n \<le> tx_n \<and> ty_n < tz_n) \<longrightarrow> cur_j (proceed c s) = cur_j s"
    unfolding assms by (simp add: proceed_def Let_def)
  have 9: "\<not> (tz_n \<le> tx_n \<and> tz_n \<le> ty_n) \<longrightarrow> cur_k (proceed c s) = cur_k s"
    unfolding assms by (simp add: proceed_def Let_def)
  show ?thesis
    using 1 2 3 4 5 6 7 8 9 by blast
qed

theorem proceed_tie_priority_witness:
  "cur_tx tie_state + dda_dtx tie_setup = cur_ty tie_state + dda_dty tie_setup
   \<and> cur_tx tie_state + dda_dtx tie_setup < cur_tz tie_state + dda_dtz tie_setup
   \<and> proceed tie_setup tie_state
       = tie_state\<lparr>cur_j := cur_j tie_state + dda_dj tie_setup,
                      cur_ty := cur_ty tie_state + dda_dty tie_setup\<rparr>
   \<and> cur_i (proceed tie_setup tie_state) = cur_i tie_state
   \<and> cur_k (proceed tie_setup tie_state) = cur_k tie_state
   \<and> cur_tx tie_state + dda_dtx x_first_setup < cur_ty tie_state + dda_dty x_first_setup
   \<and> cur_tx tie_state + dda_dtx x_first_setup < cur_tz tie_state + dda_dtz x_first_setup
   \<and> proceed x_first_setup tie_state
       = tie_state\<lparr>cur_i := cur_i tie_state + dda_di x_first_setup,
                      cur_tx := cur_tx tie_state + dda_dtx x_first_setup\<rparr>
   \<and> cur_tz tie_state + dda_dtz z_tie_setup = cur_ty tie_state + dda_dty z_tie_setup
   \<and> cur_ty tie_state + dda_dty z_tie_setup \<le> cur_tx tie_state + dda_dtx z_tie_setup
   \<and> proceed z_tie_setup tie_state
       = tie_state\<lparr>cur_k := cur_k tie_state + dda_dk z_tie_setup,
                      cur_tz := cur_tz tie_state + dda_dtz z_tie_setup\<rparr>"
proof -
  have e: "cur_tx tie_state + dda_dtx tie_setup = cur_ty tie_state + dda_dty tie_setup"
    by (simp add: tie_setup_def tie_state_def)
  have l: "cur_tx tie_state + dda_dtx tie_setup < cur_tz tie_state + dda_dtz tie_setup"
    by (simp add: tie_setup_def tie_state_def)
  have x: "cur_tx tie_state + dda_dtx x_first_setup < cur_ty tie_state + dda_dty x_first_setup"
      "cur_tx tie_state + dda_dtx x_first_setup < cur_tz tie_state + dda_dtz x_first_setup"
    by (simp_all add: x_first_setup_def tie_state_def)
  have z: "cur_tz tie_state + dda_dtz z_tie_setup = cur_ty tie_state + dda_dty z_tie_setup"
      "cur_ty tie_state + dda_dty z_tie_setup \<le> cur_tx tie_state + dda_dtx z_tie_setup"
    by (simp_all add: z_tie_setup_def tie_state_def)
  note y = proceed_tie_priority [OF refl refl refl, of tie_state tie_setup]
  from y e l have 1: "proceed tie_setup tie_state
       = tie_state\<lparr>cur_j := cur_j tie_state + dda_dj tie_setup,
                      cur_ty := cur_ty tie_state + dda_dty tie_setup\<rparr>"
    by blast
  have nx: "\<not> (cur_tx tie_state + dda_dtx tie_setup < cur_ty tie_state + dda_dty tie_setup
      \<and> cur_tx tie_state + dda_dtx tie_setup < cur_tz tie_state + dda_dtz tie_setup)"
    using e by simp
  have nz: "\<not> (cur_tz tie_state + dda_dtz tie_setup \<le> cur_tx tie_state + dda_dtx tie_setup
      \<and> cur_tz tie_state + dda_dtz tie_setup \<le> cur_ty tie_state + dda_dty tie_setup)"
    using l by simp
  from y nx have 2: "cur_i (proceed tie_setup tie_state) = cur_i tie_state"
    by blast
  from y nz have 3: "cur_k (proceed tie_setup tie_state) = cur_k tie_state"
    by blast
  from proceed_tie_priority [OF refl refl refl, of tie_state x_first_setup] x
  have 4: "proceed x_first_setup tie_state
       = tie_state\<lparr>cur_i := cur_i tie_state + dda_di x_first_setup,
                      cur_tx := cur_tx tie_state + dda_dtx x_first_setup\<rparr>"
    by blast
  from proceed_tie_priority [OF refl refl refl, of tie_state z_tie_setup] z(1) [symmetric] z(2)
  have 5: "proceed z_tie_setup tie_state
       = tie_state\<lparr>cur_k := cur_k tie_state + dda_dk z_tie_setup,
                      cur_tz := cur_tz tie_state + dda_dtz z_tie_setup\<rparr>"
    by blast
  from e l 1 2 3 x 4 z 5 show ?thesis
    by blast
qed

section \<open>Insertion into a voxel\<close>

lemma voxel_wf_zero: "voxel_wf zero_voxel"
  by (simp add: voxel_wf_def zero_voxel_def)

lemma length_stored: "voxel_wf v \<Longrightarrow> length (stored v) = nat (vox_nt v)"
  by (auto simp: voxel_wf_def stored_def split: option.splits)

lemma take_update_append_replicate:
  "0 < n \<Longrightarrow> take (Suc (length arr)) ((arr @ replicate n x)[length arr := t]) = arr @ [t]"
  by (cases n) (simp_all add: list_update_append)

lemma add_triangle_failure:
  assumes "needs_alloc v" "\<not> fst (malloc_ok h)"
  shows "rtVoxelAddTriangle h v t bufsize = Inr (0, v, snd (malloc_ok h))"
  using assms
  by (cases "malloc_ok h") (auto simp: rtVoxelAddTriangle_def needs_alloc_def split: option.splits)

lemma add_triangle_success:
  assumes wf: "voxel_wf v" and b: "0 < bufsize"
    and ok: "\<not> needs_alloc v \<or> fst (malloc_ok h)"
  shows "\<exists>v' h'. rtVoxelAddTriangle h v t bufsize = Inr (1, v', h')
      \<and> vox_nt v' = vox_nt v + 1
      \<and> stored v' = stored v @ [t]
      \<and> voxel_wf v'"
proof (cases "vox_t v")
  case None
  then have nt: "vox_nt v = 0"
    using wf by (simp add: voxel_wf_def)
  from None ok have m: "fst (malloc_ok h)"
    by (simp add: needs_alloc_def)
  then obtain h' where h': "malloc_ok h = (True, h')"
    by (cases "malloc_ok h") auto
  show ?thesis
    using None nt h' b
    by (simp add: rtVoxelAddTriangle_def store_triangle_def stored_def voxel_wf_def
        nat_less_iff take_Suc_conv_app_nth)
next
  case (Some arr)
  from wf Some have len: "int (length arr) = vox_nt v + vox_p v" and nt0: "0 \<le> vox_nt v"
    and p0: "0 \<le> vox_p v"
    by (simp_all add: voxel_wf_def)
  show ?thesis
  proof (cases "vox_p v = 0")
    case True
    with Some ok have m: "fst (malloc_ok h)"
      by (simp add: needs_alloc_def)
    then obtain h' where h': "malloc_ok h = (True, h')"
      by (cases "malloc_ok h") auto
    have l: "nat (vox_nt v) = length arr"
      using len True by simp
    have l': "int (length arr) = vox_nt v"
      using len True by simp
    have nb: "0 < nat bufsize"
      using b by simp
    show ?thesis
      using Some True h' b l l' nt0 take_update_append_replicate [OF nb]
      by (simp add: rtVoxelAddTriangle_def store_triangle_def stored_def voxel_wf_def
          nat_less_iff nat_add_distrib)
  next
    case False
    then have l: "nat (vox_nt v) < length arr"
      using len p0 nt0 by linarith
    show ?thesis
      using Some False l nt0 p0 len
      by (simp add: rtVoxelAddTriangle_def store_triangle_def stored_def voxel_wf_def
          nat_add_distrib take_Suc_conv_app_nth)
  qed
qed

text \<open>
  Claim C10.  On a voxel in the state the module keeps it in (\<open>voxel_wf\<close>) and with a
  positive \<^verbatim>\<open>bufsize\<close>: when the array has to be allocated or reallocated and \<^verbatim>\<open>malloc\<close>
  fails, \<^verbatim>\<open>rtVoxelAddTriangle\<close> returns 0 and the voxel is the one it was given; in every
  other case it returns 1, \<^verbatim>\<open>nt\<close> grows by one, the triangle stands at the old position
  \<^verbatim>\<open>nt\<close>, behind the earlier triangles in their order, and the voxel is well formed
  again.
\<close>

theorem rtVoxelAddTriangle_contract:
  assumes "voxel_wf v" "0 < bufsize"
  shows "(needs_alloc v \<and> \<not> fst (malloc_ok h) \<longrightarrow>
            rtVoxelAddTriangle h v t bufsize = Inr (0, v, snd (malloc_ok h)))
    \<and> (\<not> needs_alloc v \<or> fst (malloc_ok h) \<longrightarrow>
          (\<exists>v' h'. rtVoxelAddTriangle h v t bufsize = Inr (1, v', h')
              \<and> vox_nt v' = vox_nt v + 1
              \<and> stored v' = stored v @ [t]
              \<and> stored v' ! nat (vox_nt v) = t
              \<and> voxel_wf v'))"
proof (intro conjI impI)
  assume "needs_alloc v \<and> \<not> fst (malloc_ok h)"
  then show "rtVoxelAddTriangle h v t bufsize = Inr (0, v, snd (malloc_ok h))"
    by (simp add: add_triangle_failure)
next
  assume "\<not> needs_alloc v \<or> fst (malloc_ok h)"
  from add_triangle_success [OF assms this, of t]
  obtain v' h' where r: "rtVoxelAddTriangle h v t bufsize = Inr (1, v', h')"
      "vox_nt v' = vox_nt v + 1" "stored v' = stored v @ [t]" "voxel_wf v'"
    by blast
  have "stored v' ! nat (vox_nt v) = t"
    using r(3) length_stored [OF assms(1)] by (simp add: nth_append)
  with r show "\<exists>v' h'. rtVoxelAddTriangle h v t bufsize = Inr (1, v', h')
      \<and> vox_nt v' = vox_nt v + 1 \<and> stored v' = stored v @ [t]
      \<and> stored v' ! nat (vox_nt v) = t \<and> voxel_wf v'"
    by blast
qed

theorem rtVoxelAddTriangle_contract_witness:
  "voxel_wf zero_voxel \<and> (0::int) < 10
   \<and> rtVoxelAddTriangle [False] zero_voxel (Some 0) 10 = Inr (0, zero_voxel, [])
   \<and> (\<exists>v' h'. rtVoxelAddTriangle [True] zero_voxel (Some 0) 10 = Inr (1, v', h')
         \<and> vox_nt v' = 1 \<and> stored v' = [Some 0])"
proof -
  have b: "(0::int) < 10"
    by simp
  have n: "needs_alloc zero_voxel"
    by (simp add: needs_alloc_def zero_voxel_def)
  have z: "vox_nt zero_voxel = 0" "stored zero_voxel = []"
    by (simp_all add: zero_voxel_def stored_def)
  from rtVoxelAddTriangle_contract [OF voxel_wf_zero b, of "[False]" "Some 0"] n
  have f: "rtVoxelAddTriangle [False] zero_voxel (Some 0) 10 = Inr (0, zero_voxel, [])"
    by simp
  from rtVoxelAddTriangle_contract [OF voxel_wf_zero b, of "[True]" "Some 0"]
  have s: "\<exists>v' h'. rtVoxelAddTriangle [True] zero_voxel (Some 0) 10 = Inr (1, v', h')
         \<and> vox_nt v' = 1 \<and> stored v' = [Some 0]"
    by (simp add: z) blast
  show ?thesis
    using voxel_wf_zero b f s by blast
qed

section \<open>Evaluation on the scene of two triangles\<close>

lemma scene1_fields:
  "scn_dmin scene1 = Vec3 (- (1/1000)) (- (1/1000)) (- (1/1000))"
  "scn_dmax scene1 = Vec3 (998/1000) (998/1000) (1998/1000)"
  "scn_t scene1 = [tri_near, tri_far]"
  by (simp_all add: scene1_def scene0_def)

lemma grid0_fields:
  "udd_s grid0 = Vec3 (1/2) (1/2) (2/3)" "udd_nv grid0 = IVec3 2 2 3"
  "udd_v grid0 = replicate 12 zero_voxel"
  by (simp_all add: grid0_def)

lemma grid1_fields:
  "udd_s grid1 = Vec3 (1/2) (1/2) (2/3)" "udd_nv grid1 = IVec3 2 2 3"
  "length (udd_v grid1) = 12"
  "udd_v grid1 ! 2 = \<lparr>vox_nt = 1, vox_p = 9, vox_t = Some (Some 1 # replicate 9 None)\<rparr>"
  by (simp_all add: grid1_def grid0_def)

lemma isint_near: "scene_isint scene1 0 ray_o ray_r b = Some (33/80)"
  by (simp add: scene_isint_def scene1_fields ray_triangle_intersection_def tri_near_def
      ray_o_def ray_r_def vec_vector_make_def vec_vector_crossp_def rtVectorDotp_def EPSILON_def
      Let_def)

lemma isint_far: "scene_isint scene1 (Suc 0) ray_o ray_r b = Some (23/50)"
  by (simp add: scene_isint_def scene1_fields ray_triangle_intersection_def tri_far_def
      ray_o_def ray_r_def vec_vector_make_def vec_vector_crossp_def rtVectorDotp_def EPSILON_def
      Let_def)

lemma setup1:
  "traverse_setup grid1 scene1 ray_o ray_r 0 0 2 =
    (\<lparr>dda_dtx = FLT_MAX, dda_dty = FLT_MAX, dda_dtz = 2/3, dda_di = - 1, dda_dj = - 1, dda_dk = 1\<rparr>,
     \<lparr>cur_i = 0, cur_j = 0, cur_k = 2, cur_tx = 0, cur_ty = 0, cur_tz = - (503/3000)\<rparr>)"
  by (simp add: traverse_setup_def grid1_fields scene1_fields ray_o_def ray_r_def axis_setup_def
      step_dir_def rtAbs_def Let_def)

lemma check1:
  assumes "cur \<noteq> Some 1"
  shows "check_voxel (scene_isint scene1) grid1 cur ray_o ray_r
     \<lparr>dda_dtx = FLT_MAX, dda_dty = FLT_MAX, dda_dtz = 2/3, dda_di = - 1, dda_dj = - 1, dda_dk = 1\<rparr>
     \<lparr>cur_i = 0, cur_j = 0, cur_k = 2, cur_tx = 0, cur_ty = 0, cur_tz = - (503/3000)\<rparr>
    = Inr (23/50, Some 1)"
proof -
  have c: "Some (Suc 0) \<noteq> cur" using assms by auto
  show ?thesis
  using c
  by (simp add: check_voxel_def rtVoxelArrayOffset_def grid1_fields Let_def MIN3_def FLT_MAX_def
      isint_far)
qed

lemma traverse1:
  assumes "cur \<noteq> Some 1"
  shows "rtUddTraverse (scene_isint scene1) grid1 scene1 cur ip ray_o ray_r 0 0 2
    = Some (Inr (Some 1, Vec3 (1/20) (1/5) (49/25)))"
  apply (simp add: rtUddTraverse_def setup1)
  apply (subst traverse_loop.simps)
  apply (simp add: loop_body_def check1 [OF assms])
  apply (simp add: rtVectorRaypoint_def ray_o_def ray_r_def)
  done

lemma setup1_skip:
  "loop_body (scene_isint scene1) grid1 (Some 1) ip ray_o ray_r
     \<lparr>dda_dtx = FLT_MAX, dda_dty = FLT_MAX, dda_dtz = 2/3, dda_di = - 1, dda_dj = - 1, dda_dk = 1\<rparr>
     \<lparr>cur_i = 0, cur_j = 0, cur_k = 2, cur_tx = 0, cur_ty = 0, cur_tz = - (503/3000)\<rparr>
   = Inl (Inr (None, ip))"
  by (simp add: loop_body_def check_voxel_def rtVoxelArrayOffset_def grid1_fields Let_def
      MIN3_def proceed_def FLT_MAX_def)

lemma traverse1_skip:
  "rtUddTraverse (scene_isint scene1) grid1 scene1 (Some 1) ip ray_o ray_r 0 0 2
     = Some (Inr (None, ip))"
  unfolding rtUddTraverse_def setup1 prod.case
  by (subst traverse_loop.simps) (simp add: setup1_skip del: One_nat_def)

lemma grid1_holds_far: "Some 1 \<in> set (stored (udd_v grid1 ! 2))"
  by (simp add: grid1_fields stored_def)

lemma grid2_fields:
  "udd_s grid2 = Vec3 (1/2) (1/2) (2/3)" "udd_nv grid2 = IVec3 2 2 3"
  "length (udd_v grid2) = 12"
  "udd_v grid2 ! 2
     = \<lparr>vox_nt = 2, vox_p = 8, vox_t = Some (Some 0 # Some 1 # replicate 8 None)\<rparr>"
  by (simp_all add: grid2_def grid0_def)

lemma take_two: "take 2 (a # b # xs) = [a, b]"
  by (simp add: numeral_2_eq_2)

lemma grid2_holds_near: "Some 0 \<in> set (stored (udd_v grid2 ! 2))"
  by (simp add: grid2_fields stored_def take_two)

lemma setup2:
  "traverse_setup grid2 scene1 ray_o ray_r 0 0 2 =
    (\<lparr>dda_dtx = FLT_MAX, dda_dty = FLT_MAX, dda_dtz = 2/3, dda_di = - 1, dda_dj = - 1, dda_dk = 1\<rparr>,
     \<lparr>cur_i = 0, cur_j = 0, cur_k = 2, cur_tx = 0, cur_ty = 0, cur_tz = - (503/3000)\<rparr>)"
  by (simp add: traverse_setup_def grid2_fields scene1_fields ray_o_def ray_r_def axis_setup_def
      step_dir_def rtAbs_def Let_def)

lemma check2:
  "check_voxel (scene_isint scene1) grid2 (Some 0) ray_o ray_r
     \<lparr>dda_dtx = FLT_MAX, dda_dty = FLT_MAX, dda_dtz = 2/3, dda_di = - 1, dda_dj = - 1, dda_dk = 1\<rparr>
     \<lparr>cur_i = 0, cur_j = 0, cur_k = 2, cur_tx = 0, cur_ty = 0, cur_tz = - (503/3000)\<rparr>
    = Inr (23/50, Some 1)"
  by (simp add: check_voxel_def rtVoxelArrayOffset_def grid2_fields Let_def MIN3_def FLT_MAX_def
      isint_far take_two)

lemma traverse2:
  "rtUddTraverse (scene_isint scene1) grid2 scene1 (Some 0) ip ray_o ray_r 0 0 2
    = Some (Inr (Some 1, Vec3 (1/20) (1/5) (49/25)))"
  apply (simp add: rtUddTraverse_def setup2)
  apply (subst traverse_loop.simps)
  apply (simp add: loop_body_def check2)
  apply (simp add: rtVectorRaypoint_def ray_o_def ray_r_def)
  done

section \<open>The traverser skips the current triangle\<close>

lemma scan_voxel_nearest:
  "scan_voxel isint current ro r ts (dmin, nearest) = Inr (d', n')
   \<Longrightarrow> n' = nearest \<or> (n' \<noteq> current \<and> n' \<in> set ts)"
proof (induction ts arbitrary: dmin nearest)
  case Nil
  then show ?case by simp
next
  case (Cons t ts)
  show ?case
  proof (cases "t = current")
    case True
    with Cons.prems have "scan_voxel isint current ro r ts (dmin, nearest) = Inr (d', n')"
      by simp
    from Cons.IH [OF this] show ?thesis by auto
  next
    case False
    then obtain m where t: "t = Some m"
      using Cons.prems by (cases t) auto
    show ?thesis
    proof (cases "isint m ro r dmin")
      case None
      with Cons.prems False t
      have "scan_voxel isint current ro r ts (dmin, nearest) = Inr (d', n')"
        by simp
      from Cons.IH [OF this] show ?thesis by auto
    next
      case (Some d)
      show ?thesis
      proof (cases "d < dmin")
        case True
        with Cons.prems False t Some
        have "scan_voxel isint current ro r ts (d, t) = Inr (d', n')"
          by simp
        from Cons.IH [OF this] False show ?thesis by auto
      next
        case nl: False
        with Cons.prems False t Some
        have "scan_voxel isint current ro r ts (dmin, nearest) = Inr (d', n')"
          by simp
        from Cons.IH [OF this] show ?thesis by auto
      qed
    qed
  qed
qed

lemma check_voxel_nearest:
  assumes "check_voxel isint self current ro r c s = Inr (d, n)"
  shows "n = None \<or> n \<noteq> current"
proof -
  let ?off = "rtVoxelArrayOffset self (cur_i s) (cur_j s) (cur_k s)"
  let ?v = "udd_v self ! nat ?off"
  show ?thesis
  proof (cases "vox_nt ?v > 0")
    case False
    with assms show ?thesis
      by (auto simp: check_voxel_def Let_def split: if_splits)
  next
    case True
    with assms obtain arr where
      "scan_voxel isint current ro r (take (nat (vox_nt ?v)) arr)
         (MIN3 (cur_tx s + dda_dtx c) (cur_ty s + dda_dty c) (cur_tz s + dda_dtz c), None)
       = Inr (d, n)"
      by (auto simp: check_voxel_def Let_def split: if_splits option.splits)
    from scan_voxel_nearest [OF this] show ?thesis by auto
  qed
qed

lemma loop_body_return:
  assumes "loop_body isint self current ipoint ro r c s = Inl (Inr (p, ip))"
  shows "p = None \<or> p \<noteq> current"
proof (cases "check_voxel isint self current ro r c s")
  case (Inl e)
  with assms show ?thesis by (simp add: loop_body_def)
next
  case (Inr x)
  obtain d n where x: "x = (d, n)" by (cases x)
  from check_voxel_nearest [OF Inr [unfolded x]] have n: "n = None \<or> n \<noteq> current" .
  show ?thesis
  proof (cases n)
    case None
    with assms Inr x show ?thesis
      by (auto simp: loop_body_def Let_def split: if_splits)
  next
    case (Some m)
    with assms Inr x n show ?thesis
      by (auto simp: loop_body_def)
  qed
qed

lemma traverse_loop_return_gen:
  assumes "traverse_loop isint self current ipoint ro r c s = Some res"
  shows "\<forall>p ip. res = Inr (p, ip) \<longrightarrow> p = None \<or> p \<noteq> current"
  using assms
proof (induction rule: traverse_loop.raw_induct [rotated 1, consumes 1])
  case (1 f isint self current ipoint ro r c s res)
  show ?case
  proof (cases "loop_body isint self current ipoint ro r c s")
    case (Inl x)
    with 1(2) have "x = res"
      by simp
    with Inl loop_body_return show ?thesis
      by blast
  next
    case (Inr s')
    with 1(2) have "f isint self current ipoint ro r c s' = Some res"
      by simp
    from 1(1) [OF this] show ?thesis .
  qed
qed

text \<open>
  Claim C7.  Whatever the grid, the ray, the entry voxel and the intersection test, a call
  of \<^verbatim>\<open>rtUddTraverse\<close> with \<^verbatim>\<open>current\<close> pointing to a triangle never returns that
  pointer, however many of the visited voxels hold it.
\<close>

theorem rtUddTraverse_skips_current:
  assumes "rtUddTraverse isint self scene (Some m) ipoint ro r i j k = Some (Inr (p, ip))"
  shows "p \<noteq> Some m"
proof -
  obtain c s where cs: "traverse_setup self scene ro r i j k = (c, s)"
    by (cases "traverse_setup self scene ro r i j k")
  with assms have "traverse_loop isint self (Some m) ipoint ro r c s = Some (Inr (p, ip))"
    by (simp add: rtUddTraverse_def)
  from traverse_loop_return_gen [OF this] show ?thesis
    by auto
qed

theorem rtUddTraverse_skips_current_witness:
  "Some 1 \<in> set (stored (udd_v grid1 ! 2))
   \<and> rtUddTraverse (scene_isint scene1) grid1 scene1 (Some 1) ray_o ray_o ray_r 0 0 2
       = Some (Inr (None, ray_o))
   \<and> (None :: tptr) \<noteq> Some 1
   \<and> Some 0 \<in> set (stored (udd_v grid2 ! 2))
   \<and> rtUddTraverse (scene_isint scene1) grid2 scene1 (Some 0) ray_o ray_o ray_r 0 0 2
       = Some (Inr (Some 1, Vec3 (1/20) (1/5) (49/25)))
   \<and> Some (1::nat) \<noteq> Some 0"
proof -
  note a = traverse1_skip [of ray_o]
  note b = traverse2 [of ray_o]
  from rtUddTraverse_skips_current [OF a] rtUddTraverse_skips_current [OF b]
    a b grid1_holds_far grid2_holds_near
  show ?thesis
    by simp
qed

section \<open>Termination of the traverser\<close>

lemma proceed_cases:
  "(cur_i (proceed c s) = cur_i s + dda_di c \<and> cur_j (proceed c s) = cur_j s
      \<and> cur_k (proceed c s) = cur_k s)
   \<or> (cur_i (proceed c s) = cur_i s \<and> cur_j (proceed c s) = cur_j s + dda_dj c
      \<and> cur_k (proceed c s) = cur_k s)
   \<or> (cur_i (proceed c s) = cur_i s \<and> cur_j (proceed c s) = cur_j s
      \<and> cur_k (proceed c s) = cur_k s + dda_dk c)"
  by (simp add: proceed_def Let_def)

lemma loop_body_next:
  assumes "loop_body isint self current ipoint ro r c s = Inr s'"
  shows "s' = proceed c s" and "in_grid self (cur_i s') (cur_j s') (cur_k s')"
proof -
  from assms obtain dmin where
    "check_voxel isint self current ro r c s = Inr (dmin, None)"
    by (auto simp: loop_body_def split: sum.splits option.splits prod.splits)
  with assms show "s' = proceed c s"
    by (auto simp: loop_body_def Let_def split: if_splits)
  with assms \<open>check_voxel isint self current ro r c s = Inr (dmin, None)\<close>
  show "in_grid self (cur_i s') (cur_j s') (cur_k s')"
    by (auto simp: loop_body_def Let_def in_grid_def split: if_splits)
qed

lemma axis_left:
  fixes i n d :: int
  assumes "d = 1 \<or> d = - 1" "0 \<le> i + d" "i + d < n"
  shows "Suc (nat (if d = 1 then n - (i + d) else i + d + 1))
         = nat (if d = 1 then n - i else i + 1)"
  using assms by auto

lemma steps_left_decreases:
  assumes u: "unit_steps c"
    and g': "in_grid self (cur_i (proceed c s)) (cur_j (proceed c s)) (cur_k (proceed c s))"
  shows "Suc (steps_left self c (proceed c s)) = steps_left self c s"
proof -
  let ?s' = "proceed c s"
  from u have d: "dda_di c = 1 \<or> dda_di c = - 1" "dda_dj c = 1 \<or> dda_dj c = - 1"
      "dda_dk c = 1 \<or> dda_dk c = - 1"
    by (simp_all add: unit_steps_def)
  from g' have b: "0 \<le> cur_i ?s'" "cur_i ?s' < n0 (udd_nv self)"
      "0 \<le> cur_j ?s'" "cur_j ?s' < n1 (udd_nv self)"
      "0 \<le> cur_k ?s'" "cur_k ?s' < n2 (udd_nv self)"
    by (simp_all add: in_grid_def)
  from proceed_cases [of c s] consider
      (x) "cur_i ?s' = cur_i s + dda_di c" "cur_j ?s' = cur_j s" "cur_k ?s' = cur_k s"
    | (y) "cur_i ?s' = cur_i s" "cur_j ?s' = cur_j s + dda_dj c" "cur_k ?s' = cur_k s"
    | (z) "cur_i ?s' = cur_i s" "cur_j ?s' = cur_j s" "cur_k ?s' = cur_k s + dda_dk c"
    by blast
  then show ?thesis
  proof cases
    case x
    from axis_left [OF d(1), of "cur_i s" "n0 (udd_nv self)"] b(1,2) x(1)
    have "Suc (nat (if dda_di c = 1 then n0 (udd_nv self) - cur_i ?s' else cur_i ?s' + 1))
          = nat (if dda_di c = 1 then n0 (udd_nv self) - cur_i s else cur_i s + 1)"
      by (simp only:)
    then show ?thesis
      unfolding steps_left_def x(2,3) by linarith
  next
    case y
    from axis_left [OF d(2), of "cur_j s" "n1 (udd_nv self)"] b(3,4) y(2)
    have "Suc (nat (if dda_dj c = 1 then n1 (udd_nv self) - cur_j ?s' else cur_j ?s' + 1))
          = nat (if dda_dj c = 1 then n1 (udd_nv self) - cur_j s else cur_j s + 1)"
      by (simp only:)
    then show ?thesis
      unfolding steps_left_def y(1,3) by linarith
  next
    case z
    from axis_left [OF d(3), of "cur_k s" "n2 (udd_nv self)"] b(5,6) z(3)
    have "Suc (nat (if dda_dk c = 1 then n2 (udd_nv self) - cur_k ?s' else cur_k ?s' + 1))
          = nat (if dda_dk c = 1 then n2 (udd_nv self) - cur_k s else cur_k s + 1)"
      by (simp only:)
    then show ?thesis
      unfolding steps_left_def z(1,2) by linarith
  qed
qed

lemma scan_voxel_no_fault:
  "None \<notin> set ts \<Longrightarrow> \<exists>x. scan_voxel isint current ro r ts (dmin, nearest) = Inr x"
proof (induction ts arbitrary: dmin nearest)
  case Nil
  then show ?case by simp
next
  case (Cons t ts)
  then obtain m where t: "t = Some m" by (cases t) auto
  from Cons.prems have n: "None \<notin> set ts" by simp
  show ?case
    using Cons.IH [OF n] t by (simp split: option.splits)
qed

lemma check_voxel_no_fault:
  assumes w: "udd_wf self" and g: "in_grid self (cur_i s) (cur_j s) (cur_k s)"
  shows "\<exists>x. check_voxel isint self current ro r c s = Inr x"
proof -
  let ?off = "rtVoxelArrayOffset self (cur_i s) (cur_j s) (cur_k s)"
  let ?v = "udd_v self ! nat ?off"
  from w have len: "int (length (udd_v self))
      = n0 (udd_nv self) * n1 (udd_nv self) * n2 (udd_nv self)"
    by (simp add: udd_wf_def)
  from offset_in_array [OF g len]
  have o: "0 \<le> ?off" "?off < int (length (udd_v self))" .
  then have "?v \<in> set (udd_v self)"
    by (simp add: nat_less_iff)
  with w have v: "voxel_wf ?v" "None \<notin> set (stored ?v)"
    by (simp_all add: udd_wf_def list_all_iff)
  show ?thesis
  proof (cases "vox_nt ?v > 0")
    case False
    with o show ?thesis by (simp add: check_voxel_def Let_def)
  next
    case True
    with v(1) obtain arr where a: "vox_t ?v = Some arr"
      "int (length arr) = vox_nt ?v + vox_p ?v" "0 \<le> vox_p ?v"
      by (cases "vox_t ?v") (auto simp: voxel_wf_def)
    then have l: "\<not> nat (vox_nt ?v) > length arr" by linarith
    from v(2) a(1) have "None \<notin> set (take (nat (vox_nt ?v)) arr)"
      by (simp add: stored_def)
    from scan_voxel_no_fault [OF this] o True a(1) l
    show ?thesis by (simp add: check_voxel_def Let_def)
  qed
qed

lemma loop_body_no_fault:
  assumes "udd_wf self" "in_grid self (cur_i s) (cur_j s) (cur_k s)"
    and "loop_body isint self current ipoint ro r c s = Inl res"
  shows "\<exists>p ip. res = Inr (p, ip)"
proof -
  from check_voxel_no_fault [OF assms(1,2)] obtain d n where
    "check_voxel isint self current ro r c s = Inr (d, n)"
    by fastforce
  with assms(3) show ?thesis
    by (cases n) (auto simp: loop_body_def Let_def split: if_splits)
qed

lemma steps_left_positive:
  assumes "unit_steps c" "in_grid self (cur_i s) (cur_j s) (cur_k s)"
  shows "0 < steps_left self c s"
  using assms by (auto simp: steps_left_def unit_steps_def in_grid_def)

lemma steps_left_bound:
  assumes "in_grid self (cur_i s) (cur_j s) (cur_k s)"
  shows "steps_left self c s \<le> nat (n0 (udd_nv self) + n1 (udd_nv self) + n2 (udd_nv self))"
  using assms by (auto simp: steps_left_def in_grid_def)

lemma traverse_loop_terminates:
  assumes u: "unit_steps c" and g: "in_grid self (cur_i s) (cur_j s) (cur_k s)"
  shows "\<exists>n res. n \<le> steps_left self c s
      \<and> passes n isint self current ipoint ro r c s = Inl res
      \<and> traverse_loop isint self current ipoint ro r c s = Some res
      \<and> (udd_wf self \<longrightarrow> (\<exists>p ip. res = Inr (p, ip)))"
  using g
proof (induction "steps_left self c s" arbitrary: s rule: less_induct)
  case less
  show ?case
  proof (cases "loop_body isint self current ipoint ro r c s")
    case (Inl res)
    have 1: "Suc 0 \<le> steps_left self c s"
      using steps_left_positive [OF u less.prems] by simp
    have 2: "passes (Suc 0) isint self current ipoint ro r c s = Inl res"
      using Inl by simp
    have 3: "traverse_loop isint self current ipoint ro r c s = Some res"
      by (subst traverse_loop.simps) (simp add: Inl)
    have 4: "udd_wf self \<longrightarrow> (\<exists>p ip. res = Inr (p, ip))"
      using loop_body_no_fault [OF _ less.prems Inl] by blast
    from 1 2 3 4 show ?thesis by blast
  next
    case (Inr s')
    from loop_body_next [OF Inr] have s': "s' = proceed c s"
      and g': "in_grid self (cur_i s') (cur_j s') (cur_k s')" .
    from steps_left_decreases [OF u g' [unfolded s']] s'
    have d: "Suc (steps_left self c s') = steps_left self c s" by simp
    then have "steps_left self c s' < steps_left self c s" by simp
    from less.hyps [OF this g'] obtain n res where
      n: "n \<le> steps_left self c s'"
      and p: "passes n isint self current ipoint ro r c s' = Inl res"
      and t: "traverse_loop isint self current ipoint ro r c s' = Some res"
      and f: "udd_wf self \<longrightarrow> (\<exists>p ip. res = Inr (p, ip))"
      by blast
    have 1: "Suc n \<le> steps_left self c s" using n d by simp
    have 2: "passes (Suc n) isint self current ipoint ro r c s = Inl res"
      using Inr p by simp
    have 3: "traverse_loop isint self current ipoint ro r c s = Some res"
      by (subst traverse_loop.simps) (simp add: Inr t)
    from 1 2 3 f show ?thesis by blast
  qed
qed

lemma axis_setup_spacing:
  assumes "ra \<noteq> 0"
  shows "fst (axis_setup x1 (x1 + sa) oa ra) = \<bar>sa / ra\<bar>"
proof -
  have "(x1 + sa - oa) / ra - (x1 - oa) / ra = sa / ra"
    using assms by (simp add: field_simps)
  then show ?thesis
    using assms by (simp add: axis_setup_def Let_def rtAbs_def)
qed

lemma step_dir_unit: "step_dir x = 1 \<or> step_dir x = - 1"
  by (simp add: step_dir_def)

lemma traverse_setup_fields:
  assumes "traverse_setup self scene ro r i j k = (c, s)"
  shows "cur_i s = i" "cur_j s = j" "cur_k s = k" "unit_steps c"
    "c0 r \<noteq> 0 \<Longrightarrow> dda_dtx c = \<bar>c0 (udd_s self) / c0 r\<bar>"
    "c1 r \<noteq> 0 \<Longrightarrow> dda_dty c = \<bar>c1 (udd_s self) / c1 r\<bar>"
    "c2 r \<noteq> 0 \<Longrightarrow> dda_dtz c = \<bar>c2 (udd_s self) / c2 r\<bar>"
proof -
  from assms have c: "c = fst (traverse_setup self scene ro r i j k)"
    and s: "s = snd (traverse_setup self scene ro r i j k)"
    by simp_all
  show "cur_i s = i" "cur_j s = j" "cur_k s = k"
    by (simp_all add: s traverse_setup_def Let_def)
  show "unit_steps c"
    using step_dir_unit [of "c0 r"] step_dir_unit [of "c1 r"] step_dir_unit [of "c2 r"]
    by (simp add: c traverse_setup_def Let_def unit_steps_def)
  show "c0 r \<noteq> 0 \<Longrightarrow> dda_dtx c = \<bar>c0 (udd_s self) / c0 r\<bar>"
    by (simp add: c traverse_setup_def Let_def axis_setup_spacing)
  show "c1 r \<noteq> 0 \<Longrightarrow> dda_dty c = \<bar>c1 (udd_s self) / c1 r\<bar>"
    by (simp add: c traverse_setup_def Let_def axis_setup_spacing)
  show "c2 r \<noteq> 0 \<Longrightarrow> dda_dtz c = \<bar>c2 (udd_s self) / c2 r\<bar>"
    by (simp add: c traverse_setup_def Let_def axis_setup_spacing)
qed

text \<open>
  Claim C8.  For a ray with a nonzero direction component and an entry voxel of the grid:
  an axis with a nonzero component has its \<open>dt\<close> computed from the voxel size, not set to
  the sentinel; the index steps are 1 or -1; a pass of the loop that does not return
  leaves the indices in the grid and has moved exactly one of them by its step; and the
  loop returns within \<open>nx + ny + nz\<close> passes, so \<^verbatim>\<open>rtUddTraverse\<close> has a result.  On a
  well-formed grid that result is no fault.  The traverser takes no heap and returns
  none: it has no allocation to make.
\<close>

theorem rtUddTraverse_terminates:
  assumes g: "in_grid self i j k"
    and nz: "c0 r \<noteq> 0 \<or> c1 r \<noteq> 0 \<or> c2 r \<noteq> 0"
    and cs: "traverse_setup self scene ro r i j k = (c, s)"
  shows "((c0 r \<noteq> 0 \<and> dda_dtx c = \<bar>c0 (udd_s self) / c0 r\<bar>)
          \<or> (c1 r \<noteq> 0 \<and> dda_dty c = \<bar>c1 (udd_s self) / c1 r\<bar>)
          \<or> (c2 r \<noteq> 0 \<and> dda_dtz c = \<bar>c2 (udd_s self) / c2 r\<bar>))
    \<and> unit_steps c
    \<and> (\<forall>t t'. loop_body isint self current ipoint ro r c t = Inr t' \<longrightarrow>
          in_grid self (cur_i t') (cur_j t') (cur_k t')
          \<and> ((cur_i t' = cur_i t + dda_di c \<and> cur_j t' = cur_j t \<and> cur_k t' = cur_k t)
             \<or> (cur_i t' = cur_i t \<and> cur_j t' = cur_j t + dda_dj c \<and> cur_k t' = cur_k t)
             \<or> (cur_i t' = cur_i t \<and> cur_j t' = cur_j t \<and> cur_k t' = cur_k t + dda_dk c)))
    \<and> (\<exists>n res. n \<le> nat (n0 (udd_nv self) + n1 (udd_nv self) + n2 (udd_nv self))
          \<and> passes n isint self current ipoint ro r c s = Inl res
          \<and> rtUddTraverse isint self scene current ipoint ro r i j k = Some res
          \<and> (udd_wf self \<longrightarrow> (\<exists>p ip. res = Inr (p, ip))))"
proof -
  note f = traverse_setup_fields [OF cs]
  have 1: "(c0 r \<noteq> 0 \<and> dda_dtx c = \<bar>c0 (udd_s self) / c0 r\<bar>)
          \<or> (c1 r \<noteq> 0 \<and> dda_dty c = \<bar>c1 (udd_s self) / c1 r\<bar>)
          \<or> (c2 r \<noteq> 0 \<and> dda_dtz c = \<bar>c2 (udd_s self) / c2 r\<bar>)"
    using nz f(5,6,7) by blast
  have 3: "in_grid self (cur_i t') (cur_j t') (cur_k t')
          \<and> ((cur_i t' = cur_i t + dda_di c \<and> cur_j t' = cur_j t \<and> cur_k t' = cur_k t)
             \<or> (cur_i t' = cur_i t \<and> cur_j t' = cur_j t + dda_dj c \<and> cur_k t' = cur_k t)
             \<or> (cur_i t' = cur_i t \<and> cur_j t' = cur_j t \<and> cur_k t' = cur_k t + dda_dk c))"
    if "loop_body isint self current ipoint ro r c t = Inr t'" for t t'
    using loop_body_next [OF that] proceed_cases [of c t] by simp
  have g': "in_grid self (cur_i s) (cur_j s) (cur_k s)"
    using g f(1,2,3) by simp
  from traverse_loop_terminates [OF f(4) g', of isint current ipoint ro r]
  obtain n res where n: "n \<le> steps_left self c s"
    and p: "passes n isint self current ipoint ro r c s = Inl res"
    and t: "traverse_loop isint self current ipoint ro r c s = Some res"
    and w: "udd_wf self \<longrightarrow> (\<exists>p ip. res = Inr (p, ip))"
    by blast
  have b: "n \<le> nat (n0 (udd_nv self) + n1 (udd_nv self) + n2 (udd_nv self))"
    using n steps_left_bound [OF g', of c] by simp
  have r: "rtUddTraverse isint self scene current ipoint ro r i j k = Some res"
    using t cs by (simp add: rtUddTraverse_def)
  from 1 f(4) 3 b p r w show ?thesis
    by blast
qed

lemma grid1_wf: "udd_wf grid1"
  by (simp add: udd_wf_def grid1_def grid0_def voxel_wf_def stored_def zero_voxel_def
      numeral_eq_Suc)

theorem rtUddTraverse_terminates_witness:
  "in_grid grid1 0 0 2 \<and> c2 ray_r \<noteq> 0 \<and> udd_wf grid1
   \<and> rtUddTraverse (scene_isint scene1) grid1 scene1 (Some 1) ray_o ray_o ray_r 0 0 2
       = Some (Inr (None, ray_o))
   \<and> passes (Suc 0) (scene_isint scene1) grid1 (Some 1) ray_o ray_o ray_r
       (fst (traverse_setup grid1 scene1 ray_o ray_r 0 0 2))
       (snd (traverse_setup grid1 scene1 ray_o ray_r 0 0 2)) = Inl (Inr (None, ray_o))"
proof -
  have g: "in_grid grid1 0 0 2"
    by (simp add: in_grid_def grid1_fields)
  have nz: "c0 ray_r \<noteq> 0 \<or> c1 ray_r \<noteq> 0 \<or> c2 ray_r \<noteq> 0"
    by (simp add: ray_r_def)
  have z: "c2 ray_r \<noteq> 0"
    by (simp add: ray_r_def)
  have p: "passes (Suc 0) (scene_isint scene1) grid1 (Some 1) ray_o ray_o ray_r
       (fst (traverse_setup grid1 scene1 ray_o ray_r 0 0 2))
       (snd (traverse_setup grid1 scene1 ray_o ray_r 0 0 2)) = Inl (Inr (None, ray_o))"
    by (simp add: setup1 setup1_skip del: One_nat_def)
  from rtUddTraverse_terminates [OF g nz setup1, of "scene_isint scene1" "Some 1" ray_o]
  obtain n res where
    "rtUddTraverse (scene_isint scene1) grid1 scene1 (Some 1) ray_o ray_o ray_r 0 0 2 = Some res"
    by blast
  moreover have "rtUddTraverse (scene_isint scene1) grid1 scene1 (Some 1) ray_o ray_o ray_r 0 0 2
      = Some (Inr (None, ray_o))"
    unfolding rtUddTraverse_def setup1 prod.case
    by (subst traverse_loop.simps) (simp add: setup1_skip del: One_nat_def)
  ultimately show ?thesis
    using g z grid1_wf p by simp
qed

section \<open>Grid construction and its invariants\<close>

text \<open>The conversion of a count to \<^verbatim>\<open>float\<close> is exact below \<open>2^24\<close>.\<close>

lemma float_of_int32_exact:
  assumes "\<bar>n\<bar> < 2 ^ 24"
  shows "float_of_int32 n = real_of_int n"
proof -
  have "sgn n * \<bar>n\<bar> = n"
    by (simp add: sgn_if)
  then show ?thesis
    using assms by (simp add: float_of_int32_def float_ulp_def round_to_even_def)
qed

lemma create_empty: "rtUddCreate [True, True] empty_scene = (Some empty_grid, empty_scene1, [])"
  by (simp add: rtUddCreate_def empty_scene_def empty_scene1_def empty_grid_def scn_nt_def
      Let_def to_int32_def float_of_int32_exact)

text \<open>
  Claim C5, as stated, fails: the builder divides the extent with its further margin of
  0.001 by the resolution, so the voxel size is not \<open>(dmax - dmin) / nv\<close> for the inflated
  bounds.  On the scene without triangles in the unit cube the grid has one voxel of size
  1.003, while the inflated bounds are 1.002 apart.
\<close>

theorem rtUddCreate_voxel_size_counterexample:
  "rtUddCreate [True, True] empty_scene = (Some empty_grid, empty_scene1, [])
   \<and> c0 (udd_s empty_grid)
       \<noteq> (c0 (scn_dmax empty_scene1) - c0 (scn_dmin empty_scene1))
           / real_of_int (n0 (udd_nv empty_grid))"
  by (simp add: create_empty) (simp add: empty_grid_def empty_scene1_def)

lemma create_ok:
  assumes "rtUddCreate h scene = (Some udd, scene', h')"
  shows "\<exists>h1. malloc_ok h = (True, h1) \<and> malloc_ok h1 = (True, h')"
  using assms
  by (cases "malloc_ok h"; cases "malloc_ok (snd (malloc_ok h))")
     (auto simp: rtUddCreate_def Let_def split: bool.splits)

lemma ceil_pos:
  fixes ds v :: real
  assumes "0 < ds" "0 < v"
  shows "1 \<le> \<lceil>ds * v\<rceil>"
proof -
  have "0 < ds * v" using assms by simp
  then have "0 < \<lceil>ds * v\<rceil>" by (simp add: ceiling_less_iff)
  then show ?thesis by simp
qed

lemma to_int32_of_int: "to_int32 (real_of_int n) = n"
  by (simp add: to_int32_def)

lemma for_each_invariant:
  assumes "\<And>x s s'. P s \<Longrightarrow> f x s = Inr s' \<Longrightarrow> P s'"
    and "P s" and "for_each f xs s = Inr s'"
  shows "P s'"
  using assms(2,3)
proof (induction xs arbitrary: s)
  case Nil
  then show ?case by simp
next
  case (Cons x xs)
  from Cons.prems(2) obtain s1 where 1: "f x s = Inr s1" and 2: "for_each f xs s1 = Inr s'"
    by (auto split: sum.splits)
  from assms(1) [OF Cons.prems(1) 1] have "P s1" .
  from Cons.IH [OF this 2] show ?case .
qed

lemma add_at_shape:
  assumes "add_at self off t b h = Inr (self', h')"
  shows "same_shape self self'"
  using assms
  by (auto simp: add_at_def same_shape_def split: if_splits sum.splits prod.splits)

lemma same_shape_trans: "same_shape a b \<Longrightarrow> same_shape b c \<Longrightarrow> same_shape a c"
  by (simp add: same_shape_def)

lemma same_shape_refl: "same_shape a a"
  by (simp add: same_shape_def)

lemma voxelize_cell_shape:
  assumes "same_shape u (fst st)" "voxelize_cell scene m i j k st = Inr st'"
  shows "same_shape u (fst st')"
proof -
  obtain self h where st: "st = (self, h)" by (cases st)
  obtain self' h' where st': "st' = (self', h')" by (cases st')
  show ?thesis
  proof (cases "corners_same_side scene self (scn_t scene ! m) i j k")
    case True
    with assms(2) st have "st' = st"
      by (simp add: voxelize_cell_def)
    with assms(1) show ?thesis
      by simp
  next
    case False
    with assms(2) st st'
    have "add_at self (rtVoxelArrayOffset self i j k) (Some m) BUFSIZE h = Inr (self', h')"
      by (simp add: voxelize_cell_def)
    from add_at_shape [OF this] assms(1) st st' show ?thesis
      by (auto intro: same_shape_trans)
  qed
qed

lemma voxelize_triangle_shape:
  assumes a: "same_shape u (fst st)" and b: "voxelize_triangle scene m st = Inr st'"
  shows "same_shape u (fst st')"
proof -
  obtain self h where st: "st = (self, h)" by (cases st)
  obtain self' h' where st': "st' = (self', h')" by (cases st')
  let ?P = "\<lambda>x. same_shape u (fst x)"
  have k: "?P y'" if "?P y" "for_each (\<lambda>k. voxelize_cell scene m i j k) ks y = Inr y'"
    for i j ks y y'
    using that(1) that(2)
    by (rule for_each_invariant [where P = ?P, rotated 1]) (rule voxelize_cell_shape)
  have j: "?P y'"
    if "?P y" "for_each (\<lambda>j. for_each (\<lambda>k. voxelize_cell scene m i j k) ks) js y = Inr y'"
    for i js ks y y'
    using that(1) that(2)
    by (rule for_each_invariant [where P = ?P, rotated 1]) (rule k)
  have i: "?P y'"
    if "?P y"
       "for_each (\<lambda>i. for_each (\<lambda>j. for_each (\<lambda>k. voxelize_cell scene m i j k) ks) js) is y
        = Inr y'"
    for "is" js ks y y'
    using that(1) that(2)
    by (rule for_each_invariant [where P = ?P, rotated 1]) (rule j)
  from b st st' consider
      (single) off where "add_at self off (Some m) BUFSIZE h = Inr (self', h')"
    | (box) "is" js ks where
        "for_each (\<lambda>i. for_each (\<lambda>j. for_each (\<lambda>k. voxelize_cell scene m i j k) ks) js) is
           (self, h) = Inr (self', h')"
    by (auto simp: voxelize_triangle_def Let_def split: if_splits)
  then show ?thesis
  proof cases
    case single
    from add_at_shape [OF this] a st st' show ?thesis
      by (auto intro: same_shape_trans)
  next
    case box
    from i [OF _ box] a st st' show ?thesis by simp
  qed
qed

lemma rtUddVoxelize_shape:
  assumes "rtUddVoxelize h self scene = Inr (self', h')"
  shows "same_shape self self'"
proof (cases "malloc_ok h")
  case (Pair ok h1)
  show ?thesis
  proof (cases ok)
    case False
    with assms Pair show ?thesis
      by (simp add: rtUddVoxelize_def same_shape_def)
  next
    case True
    with assms Pair
    have f: "for_each (voxelize_triangle scene) [0..<length (scn_t scene)] (self, h1)
          = Inr (self', h')"
      by (simp add: rtUddVoxelize_def)
    have "same_shape self (fst (self', h'))"
      by (rule for_each_invariant [where P = "\<lambda>x. same_shape self (fst x)", OF _ _ f])
         (auto intro: voxelize_triangle_shape same_shape_refl)
    then show ?thesis by simp
  qed
qed

text \<open>
  Claim C5, amended.  When \<^verbatim>\<open>rtUddCreate\<close> returns a grid, with \<open>dmin\<close>, \<open>dmax\<close> the
  inflated bounds it leaves in the scene and \<open>dmin[a] \<le> dmax[a]\<close>, for every axis \<open>a\<close>:
  \<open>nv[a] \<ge> 1\<close> and \<open>s[a] = (dmax[a] - dmin[a] + 0.001) / nv[a]\<close>.  Voxelization, whatever
  the allocator does, changes neither the resolution nor the voxel size nor the number of
  voxels.  The queries are functions of the grid and return no grid, so they leave it as it
  is.
\<close>

theorem rtUddCreate_invariants:
  assumes cr: "rtUddCreate h scene = (Some udd, scene', h')"
    and b: "c0 (scn_dmin scene') \<le> c0 (scn_dmax scene')"
      "c1 (scn_dmin scene') \<le> c1 (scn_dmax scene')"
      "c2 (scn_dmin scene') \<le> c2 (scn_dmax scene')"
  shows "1 \<le> n0 (udd_nv udd) \<and> 1 \<le> n1 (udd_nv udd) \<and> 1 \<le> n2 (udd_nv udd)
    \<and> c0 (udd_s udd) = (c0 (scn_dmax scene') - c0 (scn_dmin scene') + 0.001)
                         / real_of_int (n0 (udd_nv udd))
    \<and> c1 (udd_s udd) = (c1 (scn_dmax scene') - c1 (scn_dmin scene') + 0.001)
                         / real_of_int (n1 (udd_nv udd))
    \<and> c2 (udd_s udd) = (c2 (scn_dmax scene') - c2 (scn_dmin scene') + 0.001)
                         / real_of_int (n2 (udd_nv udd))
    \<and> (\<forall>h2 udd2 h3. rtUddVoxelize h2 udd scene' = Inr (udd2, h3) \<longrightarrow>
          udd_nv udd2 = udd_nv udd \<and> udd_s udd2 = udd_s udd
          \<and> length (udd_v udd2) = length (udd_v udd))"
proof -
  from create_ok [OF cr] obtain h1 where
    m: "malloc_ok h = (True, h1)" "malloc_ok h1 = (True, h')"
    by blast
  let ?ds0 = "c0 (scn_dmax scene) + 0.001 - (c0 (scn_dmin scene) - 0.001) + 0.001"
  let ?ds1 = "c1 (scn_dmax scene) + 0.001 - (c1 (scn_dmin scene) - 0.001) + 0.001"
  let ?ds2 = "c2 (scn_dmax scene) + 0.001 - (c2 (scn_dmin scene) - 0.001) + 0.001"
  let ?v = "(real_of_int (scn_nt scene) / (?ds0 * ?ds1 * ?ds2)) powr 0.33333 + 0.001"
  let ?n0 = "\<lceil>?ds0 * ?v\<rceil>" and ?n1 = "\<lceil>?ds1 * ?v\<rceil>" and ?n2 = "\<lceil>?ds2 * ?v\<rceil>"
  from cr m have u: "udd = \<lparr>udd_s = Vec3 (?ds0 / real_of_int ?n0) (?ds1 / real_of_int ?n1)
                                      (?ds2 / real_of_int ?n2),
                         udd_nv = IVec3 ?n0 ?n1 ?n2,
                         udd_v = replicate (nat (to_int32 (float_of_int32 (?n0 * ?n1 * ?n2))))
                                   zero_voxel\<rparr>"
    by (simp add: rtUddCreate_def Let_def to_int32_of_int)
  have us: "udd_s udd = Vec3 (?ds0 / real_of_int ?n0) (?ds1 / real_of_int ?n1)
                             (?ds2 / real_of_int ?n2)"
    and un: "udd_nv udd = IVec3 ?n0 ?n1 ?n2"
    by (simp_all add: u)
  from cr m have sc: "scene' = scene\<lparr>
        scn_dmin := Vec3 (c0 (scn_dmin scene) - 0.001) (c1 (scn_dmin scene) - 0.001)
                         (c2 (scn_dmin scene) - 0.001),
        scn_dmax := Vec3 (c0 (scn_dmax scene) + 0.001) (c1 (scn_dmax scene) + 0.001)
                         (c2 (scn_dmax scene) + 0.001)\<rparr>"
    by (simp add: rtUddCreate_def Let_def)
  have ds: "0 < ?ds0" "0 < ?ds1" "0 < ?ds2"
    using b by (simp_all add: sc)
  have v: "0 < ?v"
    by (intro add_nonneg_pos) simp_all
  have n: "1 \<le> ?n0" "1 \<le> ?n1" "1 \<le> ?n2"
    using ds v by (simp_all add: ceil_pos)
  have 3: "1 \<le> n0 (udd_nv udd)" "1 \<le> n1 (udd_nv udd)" "1 \<le> n2 (udd_nv udd)"
    using n by (simp_all add: un)
  have 4: "c0 (udd_s udd) = (c0 (scn_dmax scene') - c0 (scn_dmin scene') + 0.001)
                         / real_of_int (n0 (udd_nv udd))"
      "c1 (udd_s udd) = (c1 (scn_dmax scene') - c1 (scn_dmin scene') + 0.001)
                         / real_of_int (n1 (udd_nv udd))"
      "c2 (udd_s udd) = (c2 (scn_dmax scene') - c2 (scn_dmin scene') + 0.001)
                         / real_of_int (n2 (udd_nv udd))"
    by (simp_all add: us un sc)
  have 7: "udd_nv udd2 = udd_nv udd \<and> udd_s udd2 = udd_s udd
          \<and> length (udd_v udd2) = length (udd_v udd)"
    if "rtUddVoxelize h2 udd scene' = Inr (udd2, h3)" for h2 udd2 h3
    using rtUddVoxelize_shape [OF that] by (simp add: same_shape_def)
  from 3 4 7 show ?thesis
    by blast
qed

text \<open>
  The number of voxels the array gets is the count as the \<^verbatim>\<open>float\<close> holds it: the
  count of a grid of 257 voxels along each axis is rounded down by one.
\<close>

lemma rtUddCreate_voxel_count:
  assumes "rtUddCreate h scene = (Some udd, scene', h')"
  shows "length (udd_v udd)
         = nat (to_int32 (float_of_int32 (n0 (udd_nv udd) * n1 (udd_nv udd) * n2 (udd_nv udd))))"
proof -
  from create_ok [OF assms] obtain h1 where
    m: "malloc_ok h = (True, h1)" "malloc_ok h1 = (True, h')"
    by blast
  from assms m show ?thesis
    by (clarsimp simp: rtUddCreate_def Let_def to_int32_of_int)
qed

lemma float_of_int32_rounds: "float_of_int32 (257 * 257 * 257) = 16974592"
  by (simp add: float_of_int32_def float_ulp_def round_to_even_def)

lemma create0: "rtUddCreate [True, True] scene0 = (Some grid0, scene1, [])"
  by (simp add: rtUddCreate_def scene0_def scene1_def grid0_def scn_nt_def Let_def to_int32_def
      float_of_int32_exact)

lemma near_skipped_00: "corners_same_side scene1 grid0 tri_near 0 0 2"
  by (simp add: corners_same_side_def scene1_fields grid0_fields tri_near_def
      rtVectorDotp_def Let_def)

lemma near_skipped_01: "corners_same_side scene1 grid0 tri_near 0 1 2"
  by (simp add: corners_same_side_def scene1_fields grid0_fields tri_near_def
      rtVectorDotp_def Let_def)

lemma near_box:
  "voxelize_triangle scene1 0 (grid0, h)
   = for_each (\<lambda>i. for_each (\<lambda>j. for_each (\<lambda>k. voxelize_cell scene1 0 i j k) [2]) [0, 1]) [0]
       (grid0, h)"
  by (simp add: voxelize_triangle_def Let_def to_int32_def MIN3_def MAX3_def
        tri_near_def scene1_fields grid0_fields upto.simps)

lemma vox_near: "voxelize_triangle scene1 0 (grid0, h) = Inr (grid0, h)"
  using near_skipped_00 near_skipped_01
  by (simp add: near_box voxelize_cell_def scene1_fields)

lemma vox_far: "voxelize_triangle scene1 (Suc 0) (grid0, [True]) = Inr (grid1, [])"
  by (simp add: voxelize_triangle_def Let_def to_int32_def MIN3_def MAX3_def
        tri_far_def scene1_fields grid0_fields grid1_def add_at_def rtVoxelArrayOffset_def
        rtVoxelAddTriangle_def store_triangle_def zero_voxel_def BUFSIZE_def numeral_eq_Suc)

lemma voxelize0: "rtUddVoxelize [True, True] grid0 scene1 = Inr (grid1, [])"
proof -
  have l: "[0..<length (scn_t scene1)] = [0, Suc 0]"
    by (simp add: scene1_fields upt_rec)
  show ?thesis
    by (simp add: rtUddVoxelize_def l vox_near vox_far)
qed

theorem rtUddCreate_invariants_witness:
  "rtUddCreate [True, True] scene0 = (Some grid0, scene1, [])
   \<and> c0 (scn_dmin scene1) \<le> c0 (scn_dmax scene1) \<and> c1 (scn_dmin scene1) \<le> c1 (scn_dmax scene1)
   \<and> c2 (scn_dmin scene1) \<le> c2 (scn_dmax scene1)
   \<and> 1 \<le> n0 (udd_nv grid0) \<and> 1 \<le> n1 (udd_nv grid0) \<and> 1 \<le> n2 (udd_nv grid0)
   \<and> c0 (udd_s grid0) = (c0 (scn_dmax scene1) - c0 (scn_dmin scene1) + 0.001)
                         / real_of_int (n0 (udd_nv grid0))
   \<and> c1 (udd_s grid0) = (c1 (scn_dmax scene1) - c1 (scn_dmin scene1) + 0.001)
                         / real_of_int (n1 (udd_nv grid0))
   \<and> c2 (udd_s grid0) = (c2 (scn_dmax scene1) - c2 (scn_dmin scene1) + 0.001)
                         / real_of_int (n2 (udd_nv grid0))
   \<and> rtUddVoxelize [True, True] grid0 scene1 = Inr (grid1, [])
   \<and> udd_nv grid1 = udd_nv grid0 \<and> udd_s grid1 = udd_s grid0
   \<and> length (udd_v grid1) = length (udd_v grid0)"
proof -
  have b: "c0 (scn_dmin scene1) \<le> c0 (scn_dmax scene1)"
      "c1 (scn_dmin scene1) \<le> c1 (scn_dmax scene1)"
      "c2 (scn_dmin scene1) \<le> c2 (scn_dmax scene1)"
    by (simp_all add: scene1_fields)
  note i = rtUddCreate_invariants [OF create0 b]
  from i have v: "udd_nv grid1 = udd_nv grid0 \<and> udd_s grid1 = udd_s grid0
      \<and> length (udd_v grid1) = length (udd_v grid0)"
    using voxelize0 by blast
  from i b create0 voxelize0 v show ?thesis
    by blast
qed

section \<open>The sign test of the voxelizer\<close>

lemma near_corners_differ:
  "\<not> same_strict_sign (map (plane_sigma tri_near) (voxel_corners scene1 grid0 0 0 2))"
  by (simp add: same_strict_sign_def voxel_corners_def plane_sigma_def rtVectorDotp_def
      scene1_fields grid0_fields tri_near_def Let_def)

lemma grid1_without_near: "list_all (\<lambda>v. Some 0 \<notin> set (stored v)) (udd_v grid1)"
  by (simp add: grid1_def grid0_def stored_def zero_voxel_def numeral_eq_Suc)

text \<open>
  Claim C4 on the code.  The general path reaches the voxel \<open>(0, 0, 2)\<close> for \<open>tri_near\<close>.
  The eight points the code tests lie on one side of the plane of the triangle, because
  two of them are built with \<open>x2\<close> in place of \<open>z2\<close>; the eight corners of the box of the
  voxel do not share a sign.  The voxel is skipped, and after voxelization no voxel of the
  grid holds the triangle.
\<close>

theorem rtUddVoxelize_drops_crossed_voxel:
  "voxelize_triangle scene1 0 (grid0, [True])
     = for_each (\<lambda>i. for_each (\<lambda>j. for_each (\<lambda>k. voxelize_cell scene1 0 i j k) [2]) [0, 1]) [0]
         (grid0, [True])
   \<and> corners_same_side scene1 grid0 tri_near 0 0 2
   \<and> \<not> same_strict_sign (map (plane_sigma tri_near) (voxel_corners scene1 grid0 0 0 2))
   \<and> voxelize_cell scene1 0 0 0 2 (grid0, [True]) = Inr (grid0, [True])
   \<and> rtUddVoxelize [True, True] grid0 scene1 = Inr (grid1, [])
   \<and> list_all (\<lambda>v. Some 0 \<notin> set (stored v)) (udd_v grid1)"
proof -
  have c: "voxelize_cell scene1 0 0 0 2 (grid0, [True]) = Inr (grid0, [True])"
    using near_skipped_00 by (simp add: voxelize_cell_def scene1_fields)
  from near_box near_skipped_00 near_corners_differ c voxelize0 grid1_without_near
  show ?thesis
    by simp
qed

section \<open>The ray entry locator\<close>

lemma out_result: "rtUddFindStartupVoxel grid1 scene1 out_o out_r = (1, 0, 0, 0)"
  by (simp add: rtUddFindStartupVoxel_def rtVertexGetVoxel_def scene1_fields grid1_fields
      out_o_def to_int32_def Let_def)

text \<open>
  Claim C3 on the code.  For an origin 0.199 below the face \<open>x = dmin\<close> the conversion to
  an index truncates -0.398 to 0, so \<^verbatim>\<open>rtUddFindStartupVoxel\<close> returns 1 with the voxel
  \<open>(0, 0, 0)\<close>; the ray runs away from the domain, and no point of it with \<open>t \<ge> 0\<close> lies
  in the box of that voxel or in the domain at all.
\<close>

theorem rtUddFindStartupVoxel_accepts_outside_origin:
  "rtUddFindStartupVoxel grid1 scene1 out_o out_r = (1, 0, 0, 0)
   \<and> \<not> in_domain scene1 out_o
   \<and> \<not> (\<exists>t. 0 \<le> t \<and> voxel_box scene1 grid1 0 0 0 (rtVectorRaypoint out_o out_r t))
   \<and> \<not> (\<exists>t. 0 \<le> t \<and> in_domain scene1 (rtVectorRaypoint out_o out_r t))"
proof -
  have 1: "\<not> in_domain scene1 out_o"
    by (simp add: in_domain_def scene1_fields out_o_def)
  have 2: "\<not> voxel_box scene1 grid1 0 0 0 (rtVectorRaypoint out_o out_r t)" if "0 \<le> t" for t
    using that
    by (simp add: voxel_box_def scene1_fields grid1_fields rtVectorRaypoint_def out_o_def
        out_r_def)
  have 3: "\<not> in_domain scene1 (rtVectorRaypoint out_o out_r t)" if "0 \<le> t" for t
    using that
    by (simp add: in_domain_def scene1_fields rtVectorRaypoint_def out_o_def out_r_def)
  from out_result 1 2 3 show ?thesis
    by blast
qed

lemma far_walls: "two_nearest_walls scene1 far_o far_r = (7/10, 7/5)"
  by (simp add: two_nearest_walls_def wall_distances_def keep_two_def scene1_fields
      far_o_def far_r_def FLT_MAX_def)

lemma far_result: "rtUddFindStartupVoxel grid1 scene1 far_o far_r = (0, 0, 0, - 1)"
proof -
  have o: "rtVertexGetVoxel scene1 grid1 far_o = (0, 0, - 1, - 3)"
    by (simp add: rtVertexGetVoxel_def scene1_fields grid1_fields far_o_def to_int32_def Let_def)
  have a: "rtVertexGetVoxel scene1 grid1 (rtVectorRaypoint far_o far_r (7/10)) = (0, 0, 0, - 2)"
    by (simp add: rtVertexGetVoxel_def scene1_fields grid1_fields far_o_def far_r_def
        rtVectorRaypoint_def to_int32_def Let_def)
  have b: "rtVertexGetVoxel scene1 grid1 (rtVectorRaypoint far_o far_r (7/5)) = (0, 0, 0, - 1)"
    by (simp add: rtVertexGetVoxel_def scene1_fields grid1_fields far_o_def far_r_def
        rtVectorRaypoint_def to_int32_def Let_def)
  show ?thesis
    by (simp add: rtUddFindStartupVoxel_def o far_walls a b)
qed

text \<open>
  Claim C2 on the code.  The ray has a unit direction and starts outside the domain; it
  stays outside up to the parameter 2.8, where it enters through the box of the voxel
  \<open>(1, 1, 0)\<close>, and it is inside at the parameter 3.  The two smallest positive crossing
  parameters are 0.7 and 1.4, neither is the entry, and \<^verbatim>\<open>rtUddFindStartupVoxel\<close>
  returns 0.
\<close>

theorem rtUddFindStartupVoxel_misses_entering_ray:
  "rtUddFindStartupVoxel grid1 scene1 far_o far_r = (0, 0, 0, - 1)
   \<and> rtVectorDotp far_r far_r = 1
   \<and> \<not> in_domain scene1 far_o
   \<and> two_nearest_walls scene1 far_o far_r = (7/10, 7/5)
   \<and> \<not> (\<exists>t. 0 \<le> t \<and> t < 14/5 \<and> in_domain scene1 (rtVectorRaypoint far_o far_r t))
   \<and> in_domain scene1 (rtVectorRaypoint far_o far_r (14/5))
   \<and> voxel_box scene1 grid1 1 1 0 (rtVectorRaypoint far_o far_r (14/5))
   \<and> in_domain scene1 (rtVectorRaypoint far_o far_r 3)"
proof -
  have 1: "rtVectorDotp far_r far_r = 1"
    by (simp add: rtVectorDotp_def far_r_def)
  have 2: "\<not> in_domain scene1 far_o"
    by (simp add: in_domain_def scene1_fields far_o_def)
  have 3: "\<not> in_domain scene1 (rtVectorRaypoint far_o far_r t)" if "t < 14/5" for t
    using that
    by (simp add: in_domain_def scene1_fields rtVectorRaypoint_def far_o_def far_r_def)
  have 4: "in_domain scene1 (rtVectorRaypoint far_o far_r (14/5))"
    by (simp add: in_domain_def scene1_fields rtVectorRaypoint_def far_o_def far_r_def)
  have 5: "voxel_box scene1 grid1 1 1 0 (rtVectorRaypoint far_o far_r (14/5))"
    by (simp add: voxel_box_def scene1_fields grid1_fields rtVectorRaypoint_def far_o_def
        far_r_def)
  have 6: "in_domain scene1 (rtVectorRaypoint far_o far_r 3)"
    by (simp add: in_domain_def scene1_fields rtVectorRaypoint_def far_o_def far_r_def)
  from far_result 1 2 far_walls 3 4 5 6 show ?thesis
    by blast
qed

section \<open>Front-to-back order on the voxelized scene\<close>

lemma entry1: "rtUddFindStartupVoxel grid1 scene1 ray_o ray_r = (1, 0, 0, 2)"
  by (simp add: rtUddFindStartupVoxel_def rtVertexGetVoxel_def scene1_fields grid1_fields
      ray_o_def to_int32_def Let_def)

text \<open>
  Claim C1 on the code.  The grid is built and voxelized for the scene of two triangles,
  the ray has a unit direction, the entry voxel is the one the locator returns and no
  triangle is excluded.  The traverser returns \<open>tri_far\<close> at the distance 0.46, while
  \<open>tri_near\<close> intersects the ray at the distance 0.4125: the voxelizer has left
  \<open>tri_near\<close> out of every voxel.
\<close>

theorem rtUddTraverse_returns_farther_triangle:
  "rtUddCreate [True, True] scene0 = (Some grid0, scene1, [])
   \<and> rtUddVoxelize [True, True] grid0 scene1 = Inr (grid1, [])
   \<and> rtVectorDotp ray_r ray_r = 1
   \<and> rtUddFindStartupVoxel grid1 scene1 ray_o ray_r = (1, 0, 0, 2)
   \<and> in_grid grid1 0 0 2
   \<and> rtUddTraverse (scene_isint scene1) grid1 scene1 None ray_o ray_o ray_r 0 0 2
       = Some (Inr (Some 1, rtVectorRaypoint ray_o ray_r (23/50)))
   \<and> scene_isint scene1 1 ray_o ray_r FLT_MAX = Some (23/50)
   \<and> scene_isint scene1 0 ray_o ray_r FLT_MAX = Some (33/80)
   \<and> (0::real) < 33/80 \<and> (33/80::real) < 23/50"
proof -
  have 1: "rtVectorDotp ray_r ray_r = 1"
    by (simp add: rtVectorDotp_def ray_r_def)
  have 2: "in_grid grid1 0 0 2"
    by (simp add: in_grid_def grid1_fields)
  have 3: "rtUddTraverse (scene_isint scene1) grid1 scene1 None ray_o ray_o ray_r 0 0 2
       = Some (Inr (Some 1, rtVectorRaypoint ray_o ray_r (23/50)))"
  proof -
    have e: "rtVectorRaypoint ray_o ray_r (23/50) = Vec3 (1/20) (1/5) (49/25)"
      by (simp add: rtVectorRaypoint_def ray_o_def ray_r_def)
    show ?thesis
      unfolding e by (rule traverse1) simp
  qed
  have 4: "scene_isint scene1 1 ray_o ray_r FLT_MAX = Some (23/50)"
    using isint_far by simp
  from create0 voxelize0 1 entry1 2 3 4 isint_near show ?thesis
    by simp
qed

end
